theory Spec2Isabelle
  imports Main "HOL-Library.Word"
begin

section \<open>Common data\<close>

text \<open>
  Python exceptions are values. The constructors are the exception classes the sources
  raise or catch by name; \<open>OSError\<close> stands for an \<open>OSError\<close> that is not a
  \<open>FileNotFoundError\<close>, \<open>Exception\<close> for any other exception. Message texts are
  rendered in English.
\<close>

datatype py_error =
    FileNotFoundError string
  | OSError string
  | ValueError string
  | AttributeError string
  | Exception string

text \<open>\<open>except OSError\<close> also catches the subclass \<open>FileNotFoundError\<close>.\<close>

fun is_OSError :: "py_error \<Rightarrow> bool" where
  "is_OSError (FileNotFoundError _) = True"
| "is_OSError (OSError _) = True"
| "is_OSError _ = False"

fun is_FileNotFoundError :: "py_error \<Rightarrow> bool" where
  "is_FileNotFoundError (FileNotFoundError _) = True"
| "is_FileNotFoundError _ = False"

type_synonym bytes = "8 word list"

text \<open>The file system: the content of every path that exists.\<close>

type_synonym filesystem = "string \<rightharpoonup> bytes"

text \<open>An instance attribute that \<open>__init__\<close> may not have created.\<close>

datatype 'a attr = Unset | Attr 'a

section \<open>core/connection.py: ConnectionHandler\<close>

record message =
  role :: string
  content :: string

text \<open>
  The data attributes of a \<open>ConnectionHandler\<close>. The components it refers to
  (\<open>tts\<close>, \<open>_asr\<close>, \<open>llm\<close>) are passed to the operations that use them.
  \<open>stop_event\<close> and \<open>executor\<close> hold \<open>None\<close> or an object: the event with its
  flag, the executor as a unit.
\<close>

record connection_handler =
  session_id :: string
  llm_finish_task :: bool
  dialogue :: "message list"
  sentence_id :: "string option"
  tts_MessageText :: string
  client_abort :: "bool attr"
  stop_event :: "bool option attr"
  executor :: "unit option attr"

text \<open>
  \<open>__init__\<close>: the lines creating \<open>stop_event\<close> and \<open>executor\<close> are commented out
  in the source, and \<open>client_abort\<close> is first assigned in \<open>chat\<close>.
\<close>

definition init_handler :: "string \<Rightarrow> connection_handler" where
  "init_handler uuid =
     \<lparr> session_id = uuid, llm_finish_task = True, dialogue = [],
       sentence_id = None, tts_MessageText = '''',
       client_abort = Unset, stop_event = Unset, executor = Unset \<rparr>"

text \<open>
  Modelled from the spec: \<open>Dialogue.put\<close> of core/utils/dialogue.py, which is not among
  the sources; the dialogue is append-only and keeps insertion order.
\<close>

definition put :: "message list \<Rightarrow> message \<Rightarrow> message list" where
  "put d m = d @ [m]"

text \<open>
  What one \<open>next()\<close> on the iterator returned by \<open>llm.response\<close> does: it yields a
  fragment (\<open>None\<close> or a string) or raises. The flag of \<open>Yield\<close> tells whether another
  party has set \<open>client_abort\<close> by the time the loop body tests it for this fragment.
\<close>

datatype stream_event = Yield bool "string option" | StreamRaise py_error

text \<open>
  The evaluation of the call expression \<open>self.llm.response(self.session_id, ...)\<close> in
  the \<open>try\<close> block of \<open>chat\<close>, arguments included: given the session id and the
  dialogue it raises (\<open>Inl\<close>) or returns the iterator, as the list of what its
  \<open>next()\<close> calls do.
\<close>

type_synonym llm = "string \<Rightarrow> message list \<Rightarrow> py_error + stream_event list"

text \<open>
  The \<open>for content in llm_responses\<close> loop of \<open>chat\<close>. The state is the abort flag,
  \<open>response_message\<close> and the number of fragments requested from the iterator so far.
  \<open>emotion_flag\<close> is a local that nothing reads afterwards and is left out.
  The result is \<open>Inl\<close> when the iterator raises, with the number of \<open>next()\<close> calls
  made, the raising one included.
\<close>

fun consume :: "stream_event list \<Rightarrow> bool \<Rightarrow> string list \<Rightarrow> nat
                  \<Rightarrow> (py_error \<times> nat) + (bool \<times> string list \<times> nat)" where
  "consume [] ab acc n = Inr (ab, acc, n)"
| "consume (StreamRaise e # rest) ab acc n = Inl (e, Suc n)"
| "consume (Yield set_now c # rest) ab acc n =
     (let ab' = (ab \<or> set_now) in
      if ab' then Inr (ab', acc, Suc n)
      else consume rest ab'
             (case c of None \<Rightarrow> acc
              | Some t \<Rightarrow> if length t > 0 then acc @ [t] else acc)
             (Suc n))"

text \<open>What \<open>chat\<close> returns: \<open>None\<close> or \<open>True\<close>.\<close>

datatype chat_return = RetNone | RetTrue

text \<open>
  \<open>chat(query, depth)\<close>. \<open>fresh\<close> is the value of \<open>uuid.uuid4().hex\<close>. The result is
  the outcome (\<open>Inl\<close>: an exception leaves \<open>chat\<close>), the handler afterwards and the
  number of fragments requested from the model.
\<close>

definition chat :: "llm \<Rightarrow> string \<Rightarrow> connection_handler \<Rightarrow> string \<Rightarrow> nat
                      \<Rightarrow> (py_error + chat_return) \<times> connection_handler \<times> nat" where
  "chat model fresh h query depth =
     (let h1 = h\<lparr>llm_finish_task := False\<rparr>;
          h2 = (if depth = 0
                then h1\<lparr>sentence_id := Some fresh,
                        dialogue := put (dialogue h1) \<lparr>role = ''user'', content = query\<rparr>\<rparr>
                else h1)
      in case model (session_id h2) (dialogue h2) of
           Inl e \<Rightarrow> (Inr RetNone, h2, 0)
         | Inr llm_responses \<Rightarrow>
             (let h3 = h2\<lparr>client_abort := Attr False\<rparr>
              in case consume llm_responses False [] 0 of
                   Inl (e, n) \<Rightarrow> (Inl e, h3, n)
                 | Inr (ab, response_message, n) \<Rightarrow>
                     (let h4 = h3\<lparr>client_abort := Attr ab\<rparr>;
                          h5 = (if length response_message > 0
                                then (let text_buff = concat response_message
                                      in h4\<lparr>tts_MessageText := text_buff,
                                            dialogue := put (dialogue h4)
                                              \<lparr>role = ''assistant'', content = text_buff\<rparr>\<rparr>)
                                else h4)
                      in (Inr RetTrue, h5\<lparr>llm_finish_task := True\<rparr>, n))))"

text \<open>
  \<open>close\<close>. \<open>tts\<close> is \<open>None\<close> or the outcome of \<open>tts.close()\<close>; \<open>shutdown\<close> is the
  outcome of \<open>executor.shutdown\<close>. The steps carried out are recorded in order.
\<close>

datatype cleanup_step = StopSignal | TtsRelease | PoolShutdown

text \<open>
  The body of the \<open>try\<close> block: what it raises, the handler, the steps reached and
  the errors logged. A failure of \<open>executor.shutdown\<close> is caught and logged on the
  spot.
\<close>

definition close_try :: "py_error option option \<Rightarrow> py_error option \<Rightarrow> connection_handler
           \<Rightarrow> py_error option \<times> connection_handler \<times> cleanup_step list \<times> py_error list" where
  "close_try tts shutdown h =
     (case stop_event h of
        Unset \<Rightarrow> (Some (AttributeError ''stop_event''), h, [], [])
      | Attr ev \<Rightarrow>
         (let (h1, t1) = (case ev of None \<Rightarrow> (h, [])
                           | Some _ \<Rightarrow> (h\<lparr>stop_event := Attr (Some True)\<rparr>, [StopSignal]))
          in case (case tts of None \<Rightarrow> None | Some r \<Rightarrow> r) of
               Some e \<Rightarrow> (Some e, h1, t1 @ [TtsRelease], [])
             | None \<Rightarrow>
                (let t2 = t1 @ (case tts of None \<Rightarrow> [] | Some _ \<Rightarrow> [TtsRelease])
                 in case executor h1 of
                      Unset \<Rightarrow> (Some (AttributeError ''executor''), h1, t2, [])
                    | Attr None \<Rightarrow> (None, h1, t2, [])
                    | Attr (Some _) \<Rightarrow>
                        (None, h1\<lparr>executor := Attr None\<rparr>, t2 @ [PoolShutdown],
                         (case shutdown of None \<Rightarrow> [] | Some e \<Rightarrow> [e])))))"

text \<open>
  \<open>close\<close>: the \<open>except Exception\<close> clause logs what the \<open>try\<close> block raised, and
  the \<open>finally\<close> clause reads \<open>self.stop_event\<close> again, outside any handler. The
  first component is the exception that leaves \<open>close\<close>, if any.
\<close>

definition close :: "py_error option option \<Rightarrow> py_error option \<Rightarrow> connection_handler
           \<Rightarrow> py_error option \<times> connection_handler \<times> cleanup_step list \<times> py_error list" where
  "close tts shutdown h =
     (let (r, h1, t, l) = close_try tts shutdown h;
          logged = l @ (case r of None \<Rightarrow> [] | Some e \<Rightarrow> [e])
      in case stop_event h1 of
           Unset \<Rightarrow> (Some (AttributeError ''stop_event''), h1, t, logged)
         | Attr None \<Rightarrow> (None, h1, t, logged)
         | Attr (Some _) \<Rightarrow>
             (None, h1\<lparr>stop_event := Attr (Some True)\<rparr>, t @ [StopSignal], logged))"

section \<open>core/tts/base.py: TTSProviderBase\<close>

text \<open>
  What the retry loops act on: the file system, the number of calls made to the
  backend (\<open>text_to_speak\<close> for a synthesizer, \<open>model.generate\<close> for a recognizer),
  the loop iterations begun, the \<open>time.sleep\<close> delays in seconds, and the chunks
  handed to the caller's callback.
\<close>

record world =
  files :: filesystem
  calls :: nat
  attempts :: nat
  sleeps :: "nat list"
  delivered :: "bytes list"

text \<open>
  The collaborators of the synthesizer, none of them among the sources.
  \<open>text_to_speak\<close> is the abstract backend: its n-th call (from 0), given the text, the
  target path (or \<open>None\<close>) and the file system, raises or returns bytes (or \<open>None\<close>)
  and leaves a file system. \<open>audio_bytes_to_data_stream\<close> and the decoders behind
  \<open>_process_audio_file_stream\<close> hand chunks to the callback and may then raise.
  \<open>os_remove_fault\<close> tells whether \<open>os.remove\<close> fails after the n-th call.
\<close>

record tts_env =
  text_to_speak :: "nat \<Rightarrow> string \<Rightarrow> string option \<Rightarrow> filesystem
                      \<Rightarrow> (py_error + bytes option) \<times> filesystem"
  clean_markdown :: "string \<Rightarrow> string"
  audio_bytes_to_data_stream :: "bytes \<Rightarrow> bytes list \<times> py_error option"
  decode_file :: "string \<Rightarrow> filesystem \<Rightarrow> bytes list \<times> py_error option"
  os_remove_fault :: "nat \<Rightarrow> py_error option"

text \<open>Python's truth value of \<open>audio_bytes\<close>: the bytes when they are there and not empty.\<close>

fun truthy_bytes :: "bytes option \<Rightarrow> bytes option" where
  "truthy_bytes None = None"
| "truthy_bytes (Some []) = None"
| "truthy_bytes (Some b) = Some b"

text \<open>
  \<open>to_tts\<close>, ephemeral mode (\<open>delete_audio_file\<close> set): the \<open>while max_repeat_time > 0\<close>
  loop. A call that raises, bytes that are empty and an encoder that raises each cost
  one of the repetitions. The result is \<open>audio_datas\<close>, or \<open>None\<close> after the loop.
\<close>

function to_tts_bytes :: "tts_env \<Rightarrow> string \<Rightarrow> int \<Rightarrow> world \<Rightarrow> bytes list option \<times> world" where
  "to_tts_bytes env text max_repeat_time w =
     (if max_repeat_time > 0 then
        (case text_to_speak env (calls w) text None (files w) of
           (Inl e, f) \<Rightarrow>
             to_tts_bytes env text (max_repeat_time - 1) (w\<lparr>files := f, calls := Suc (calls w)\<rparr>)
         | (Inr audio_bytes, f) \<Rightarrow>
             (case truthy_bytes audio_bytes of
                None \<Rightarrow>
                  to_tts_bytes env text (max_repeat_time - 1)
                    (w\<lparr>files := f, calls := Suc (calls w)\<rparr>)
              | Some b \<Rightarrow>
                  (case audio_bytes_to_data_stream env b of
                     (audio_datas, None) \<Rightarrow>
                        (Some audio_datas, w\<lparr>files := f, calls := Suc (calls w)\<rparr>)
                   | (audio_datas, Some e) \<Rightarrow>
                        to_tts_bytes env text (max_repeat_time - 1)
                          (w\<lparr>files := f, calls := Suc (calls w)\<rparr>))))
      else (None, w))"
  by pat_completeness auto
termination
  by (relation "measure (\<lambda>(env, text, m, w). nat m)") auto

text \<open>
  \<open>to_tts_stream\<close>, ephemeral mode: the same loop, but the chunks go to \<open>opus_handler\<close>
  as they are produced (also those of an encoding that raises afterwards), and success
  leaves the loop by \<open>break\<close>. The first component is \<open>max_repeat_time\<close> after the loop.
\<close>

function to_tts_stream_bytes :: "tts_env \<Rightarrow> string \<Rightarrow> int \<Rightarrow> world \<Rightarrow> int \<times> world" where
  "to_tts_stream_bytes env text max_repeat_time w =
     (if max_repeat_time > 0 then
        (case text_to_speak env (calls w) text None (files w) of
           (Inl e, f) \<Rightarrow>
             to_tts_stream_bytes env text (max_repeat_time - 1)
               (w\<lparr>files := f, calls := Suc (calls w)\<rparr>)
         | (Inr audio_bytes, f) \<Rightarrow>
             (case truthy_bytes audio_bytes of
                None \<Rightarrow>
                  to_tts_stream_bytes env text (max_repeat_time - 1)
                    (w\<lparr>files := f, calls := Suc (calls w)\<rparr>)
              | Some b \<Rightarrow>
                  (case audio_bytes_to_data_stream env b of
                     (chunks, None) \<Rightarrow>
                        (max_repeat_time,
                         w\<lparr>files := f, calls := Suc (calls w), delivered := delivered w @ chunks\<rparr>)
                   | (chunks, Some e) \<Rightarrow>
                        to_tts_stream_bytes env text (max_repeat_time - 1)
                          (w\<lparr>files := f, calls := Suc (calls w),
                             delivered := delivered w @ chunks\<rparr>))))
      else (max_repeat_time, w))"
  by pat_completeness auto
termination
  by (relation "measure (\<lambda>(env, text, m, w). nat m)") auto

text \<open>
  Persistent mode, the loop \<open>while not os.path.exists(tmp_file) and max_repeat_time > 0\<close>
  that \<open>to_tts\<close> and \<open>to_tts_stream\<close> both have, line for line. Its state is the world
  and \<open>max_repeat_time\<close>.
\<close>

definition persist_guard :: "string \<Rightarrow> world \<times> int \<Rightarrow> bool" where
  "persist_guard tmp_file s = (files (fst s) tmp_file = None \<and> snd s > 0)"

text \<open>
  The loop body. Only the \<open>except\<close> clause decrements \<open>max_repeat_time\<close>; there the
  partial file is removed, and a failing \<open>os.remove\<close> leaves the loop for the outer
  handler (the first component).
\<close>

definition persist_body :: "tts_env \<Rightarrow> string \<Rightarrow> string \<Rightarrow> world \<times> int
                              \<Rightarrow> py_error option \<times> world \<times> int" where
  "persist_body env text tmp_file s =
     (let w = fst s; max_repeat_time = snd s
      in case text_to_speak env (calls w) text (Some tmp_file) (files w) of
           (Inr _, f) \<Rightarrow> (None, w\<lparr>files := f, calls := Suc (calls w)\<rparr>, max_repeat_time)
         | (Inl e, f) \<Rightarrow>
             (if f tmp_file \<noteq> None then
                (case os_remove_fault env (calls w) of
                   Some e' \<Rightarrow> (Some e', w\<lparr>files := f, calls := Suc (calls w)\<rparr>, max_repeat_time)
                 | None \<Rightarrow>
                     (None, w\<lparr>files := f(tmp_file := None), calls := Suc (calls w)\<rparr>,
                      max_repeat_time - 1))
              else (None, w\<lparr>files := f, calls := Suc (calls w)\<rparr>, max_repeat_time - 1)))"

text \<open>The loop may not end: \<open>None\<close> is a run that never leaves it.\<close>

partial_function (option) persist_loop :: "tts_env \<Rightarrow> string \<Rightarrow> string \<Rightarrow> world \<times> int
                              \<Rightarrow> (py_error option \<times> world \<times> int) option" where
  "persist_loop env text tmp_file s =
     (if persist_guard tmp_file s then
        (case persist_body env text tmp_file s of
           (Some e, s') \<Rightarrow> Some (Some e, s')
         | (None, s') \<Rightarrow> persist_loop env text tmp_file s')
      else Some (None, s))"

text \<open>
  The loop cut off after \<open>k\<close> iterations: the state reached then, or the one in which
  the loop has ended before.
\<close>

fun persist_iterate :: "tts_env \<Rightarrow> string \<Rightarrow> string \<Rightarrow> nat \<Rightarrow> world \<times> int
                          \<Rightarrow> py_error option \<times> world \<times> int" where
  "persist_iterate env text tmp_file 0 s = (None, s)"
| "persist_iterate env text tmp_file (Suc k) s =
     (if persist_guard tmp_file s then
        (case persist_body env text tmp_file s of
           (Some e, s') \<Rightarrow> (Some e, s')
         | (None, s') \<Rightarrow> persist_iterate env text tmp_file k s')
      else (None, s))"

text \<open>What \<open>to_tts\<close> returns: \<open>None\<close>, the encoded chunks, or a path.\<close>

datatype tts_return = NoAudio | AudioDatas "bytes list" | AudioFile string

text \<open>
  \<open>to_tts(text)\<close>. \<open>tmp_file\<close> is the value of \<open>generate_filename()\<close>. In persistent
  mode the path is returned whatever \<open>max_repeat_time\<close> is after the loop; \<open>None\<close> is
  returned only from the outer \<open>except\<close> clause.
\<close>

definition to_tts :: "tts_env \<Rightarrow> bool \<Rightarrow> string \<Rightarrow> string \<Rightarrow> world
                        \<Rightarrow> (tts_return \<times> world) option" where
  "to_tts env delete_audio_file text0 tmp_file w =
     (let text = clean_markdown env text0 in
      if delete_audio_file then
        (case to_tts_bytes env text 5 w of
           (Some audio_datas, w') \<Rightarrow> Some (AudioDatas audio_datas, w')
         | (None, w') \<Rightarrow> Some (NoAudio, w'))
      else
        (case persist_loop env text tmp_file (w, 5) of
           None \<Rightarrow> None
         | Some (Some e, w', m) \<Rightarrow> Some (NoAudio, w')
         | Some (None, w', m) \<Rightarrow> Some (AudioFile tmp_file, w')))"

text \<open>
  \<open>_process_audio_file_stream\<close>: the file is decoded to the callback, then removed
  when \<open>delete_audio_file\<close> is set, it exists and its path starts with the output
  directory. The first component is the exception that leaves it.
\<close>

definition process_audio_file_stream :: "tts_env \<Rightarrow> bool \<Rightarrow> string \<Rightarrow> string \<Rightarrow> world
                                          \<Rightarrow> py_error option \<times> world" where
  "process_audio_file_stream env delete_audio_file output_file tts_file w =
     (case decode_file env tts_file (files w) of
        (chunks, Some e) \<Rightarrow> (Some e, w\<lparr>delivered := delivered w @ chunks\<rparr>)
      | (chunks, None) \<Rightarrow>
          (let w1 = w\<lparr>delivered := delivered w @ chunks\<rparr>
           in if delete_audio_file \<and> files w1 tts_file \<noteq> None
                 \<and> take (length output_file) tts_file = output_file
              then (case os_remove_fault env (calls w1) of
                      Some e \<Rightarrow> (Some e, w1)
                    | None \<Rightarrow> (None, w1\<lparr>files := (files w1)(tts_file := None)\<rparr>))
              else (None, w1)))"

text \<open>
  \<open>to_tts_stream(text, opus_handler)\<close> returns nothing; the result is the world it
  leaves, or \<open>None\<close> when it never returns.
\<close>

definition to_tts_stream :: "tts_env \<Rightarrow> bool \<Rightarrow> string \<Rightarrow> string \<Rightarrow> string \<Rightarrow> world
                               \<Rightarrow> world option" where
  "to_tts_stream env delete_audio_file output_file text0 tmp_file w =
     (let text = clean_markdown env text0 in
      if delete_audio_file then Some (snd (to_tts_stream_bytes env text 5 w))
      else
        (case persist_loop env text tmp_file (w, 5) of
           None \<Rightarrow> None
         | Some (Some e, w', m) \<Rightarrow> Some w'
         | Some (None, w', m) \<Rightarrow>
             (if m > 0
              then Some (snd (process_audio_file_stream env delete_audio_file output_file tmp_file w'))
              else Some w')))"

section \<open>core/asr/fun_local.py: ASRProvider\<close>

definition MAX_RETRIES :: nat where
  "MAX_RETRIES = 2"

definition RETRY_DELAY :: nat where
  "RETRY_DELAY = 1"

definition supported_formats :: "string list" where
  "supported_formats = [''.wav'', ''.mp3'', ''.flac'', ''.m4a'']"

text \<open>
  \<open>str.lower\<close> on the letters A to Z; the supported extensions are ASCII, so no other
  character decides the membership test.
\<close>

definition lower_char :: "char \<Rightarrow> char" where
  "lower_char c =
     (case map_of (zip ''ABCDEFGHIJKLMNOPQRSTUVWXYZ'' ''abcdefghijklmnopqrstuvwxyz'') c of
        Some d \<Rightarrow> d
      | None \<Rightarrow> c)"

definition lower :: "string \<Rightarrow> string" where
  "lower s = map lower_char s"

text \<open>
  \<open>os.path.splitext\<close> (posixpath): the extension starts at the last dot of the last
  path component, unless only dots come before it in that component.
\<close>

definition splitext :: "string \<Rightarrow> string \<times> string" where
  "splitext p =
     (let name = rev (takeWhile (\<lambda>c. c \<noteq> CHR ''/'') (rev p));
          ext = rev (takeWhile (\<lambda>c. c \<noteq> CHR ''.'') (rev name));
          stem = take (length name - length ext - 1) name
      in if CHR ''.'' \<in> set name \<and> list_ex (\<lambda>c. c \<noteq> CHR ''.'') stem
         then (take (length p - length ext - 1) p, CHR ''.'' # ext)
         else (p, []))"

text \<open>\<open>os.path.join\<close> (posixpath) of two components.\<close>

definition os_path_join :: "string \<Rightarrow> string \<Rightarrow> string" where
  "os_path_join a b =
     (if b \<noteq> [] \<and> hd b = CHR ''/'' then b
      else if a = [] \<or> last a = CHR ''/'' then a @ b
      else a @ ''/'' @ b)"

record asr_provider =
  delete_audio_file :: bool
  output_dir :: string

text \<open>
  What the environment does to one attempt: which of the calls into the operating system
  raise, the free space \<open>shutil.disk_usage\<close> reports, and what the recognition engine
  (\<open>model.generate\<close> with the post-processing of its result) makes of the audio. A copy
  or a write that raises may leave a partial target file.
\<close>

record attempt_io =
  getsize_fault :: "py_error option"
  disk_free :: "py_error + nat"
  copy_fault :: "(py_error \<times> bytes option) option"
  write_fault :: "(py_error \<times> bytes option) option"
  read_fault :: "py_error option"
  generate :: "bytes \<Rightarrow> py_error + string"
  remove_fault :: "py_error option"

text \<open>Below, \<open>sid\<close> is the \<open>session_id\<close> argument of the source.\<close>

text \<open>The inference step: one call to the engine.\<close>

definition infer :: "attempt_io \<Rightarrow> bytes \<Rightarrow> string option \<Rightarrow> world
                       \<Rightarrow> (py_error + string) \<times> string option \<times> world" where
  "infer io audio_data file_path w =
     (case generate io audio_data of
        Inl e \<Rightarrow> (Inl e, file_path, w\<lparr>calls := Suc (calls w)\<rparr>)
      | Inr text \<Rightarrow> (Inr text, file_path, w\<lparr>calls := Suc (calls w)\<rparr>))"

text \<open>
  The \<open>try\<close> block of \<open>speech_to_text_from_audio_file\<close>: what it raises or the text it
  returns, \<open>file_path\<close> as the block leaves it, and the world.
\<close>

definition file_try :: "asr_provider \<Rightarrow> attempt_io \<Rightarrow> string \<Rightarrow> string \<Rightarrow> string option
                          \<Rightarrow> world \<Rightarrow> (py_error + string) \<times> string option \<times> world" where
  "file_try self io audio_file_path sid file_path w =
     (case files w audio_file_path of
        None \<Rightarrow> (Inl (FileNotFoundError ''audio file does not exist''), file_path, w)
      | Some audio_data \<Rightarrow>
         (let file_ext = lower (snd (splitext audio_file_path)) in
          if file_ext \<notin> set supported_formats
          then (Inl (ValueError ''unsupported audio format''), file_path, w)
          else if \<not> delete_audio_file self then
            (let filename = sid @ file_ext;
                 fp = os_path_join (output_dir self) filename
             in case getsize_fault io of
                  Some e \<Rightarrow> (Inl e, Some fp, w)
                | None \<Rightarrow>
                   (case disk_free io of
                      Inl e \<Rightarrow> (Inl e, Some fp, w)
                    | Inr free_space \<Rightarrow>
                       (if free_space < length audio_data * 2
                        then (Inl (OSError ''insufficient disk space''), Some fp, w)
                        else
                          (case copy_fault io of
                             Some (e, None) \<Rightarrow> (Inl e, Some fp, w)
                           | Some (e, Some part) \<Rightarrow>
                               (Inl e, Some fp, w\<lparr>files := (files w)(fp \<mapsto> part)\<rparr>)
                           | None \<Rightarrow>
                              (let w1 = w\<lparr>files := (files w)(fp \<mapsto> audio_data)\<rparr>
                               in case read_fault io of
                                    Some e \<Rightarrow> (Inl e, Some fp, w1)
                                  | None \<Rightarrow> infer io audio_data (Some fp) w1)))))
          else
            (case read_fault io of
               Some e \<Rightarrow> (Inl e, file_path, w)
             | None \<Rightarrow> infer io audio_data (Some audio_file_path) w)))"

text \<open>
  The \<open>finally\<close> clause of \<open>speech_to_text_from_audio_file\<close>; a failing \<open>os.remove\<close>
  is logged and goes no further.
\<close>

definition file_cleanup :: "asr_provider \<Rightarrow> attempt_io \<Rightarrow> string \<Rightarrow> string option \<Rightarrow> world
                              \<Rightarrow> world" where
  "file_cleanup self io audio_file_path file_path w =
     (case file_path of
        None \<Rightarrow> w
      | Some fp \<Rightarrow>
          (if delete_audio_file self \<and> fp \<noteq> [] \<and> files w fp \<noteq> None \<and> fp \<noteq> audio_file_path
           then (case remove_fault io of
                   Some e \<Rightarrow> w
                 | None \<Rightarrow> w\<lparr>files := (files w)(fp := None)\<rparr>)
           else w))"

text \<open>
  One pass through the loop body either returns from the function or goes round again
  with \<open>retry_count\<close> incremented.
\<close>

datatype attempt_result =
    Return "string \<times> string option" world
  | Retry "string option" world

text \<open>
  The \<open>try\<close> statement of \<open>speech_to_text_from_audio_file\<close> with its handlers, in the
  order of the source: \<open>FileNotFoundError\<close>, \<open>OSError\<close>, \<open>Exception\<close>. The
  \<open>finally\<close> clause runs last on every path, after the \<open>time.sleep\<close> of a retry.
\<close>

definition file_attempt :: "asr_provider \<Rightarrow> attempt_io \<Rightarrow> string \<Rightarrow> string \<Rightarrow> string option
                              \<Rightarrow> nat \<Rightarrow> world \<Rightarrow> attempt_result" where
  "file_attempt self io audio_file_path sid file_path retry_count w =
     (case file_try self io audio_file_path sid file_path w of
        (Inr text, fp, w1) \<Rightarrow> Return (text, fp) (file_cleanup self io audio_file_path fp w1)
      | (Inl e, fp, w1) \<Rightarrow>
          (if is_FileNotFoundError e
           then Return ('''', fp) (file_cleanup self io audio_file_path fp w1)
           else if is_OSError e then
             (if retry_count + 1 \<ge> MAX_RETRIES
              then Return ('''', fp) (file_cleanup self io audio_file_path fp w1)
              else Retry fp (file_cleanup self io audio_file_path fp
                               (w1\<lparr>sleeps := sleeps w1 @ [RETRY_DELAY]\<rparr>)))
           else Return ('''', fp) (file_cleanup self io audio_file_path fp w1)))"

text \<open>
  The \<open>while retry_count < MAX_RETRIES\<close> loop; \<open>env k\<close> is the environment of the
  attempt made with \<open>retry_count = k\<close>. Leaving the loop by its condition would return
  Python's \<open>None\<close>.
\<close>

function file_loop :: "asr_provider \<Rightarrow> (nat \<Rightarrow> attempt_io) \<Rightarrow> string \<Rightarrow> string \<Rightarrow> string option
                         \<Rightarrow> nat \<Rightarrow> world \<Rightarrow> (string \<times> string option) option \<times> world" where
  "file_loop self env audio_file_path sid file_path retry_count w =
     (if retry_count < MAX_RETRIES then
        (case file_attempt self (env retry_count) audio_file_path sid file_path retry_count
                (w\<lparr>attempts := Suc (attempts w)\<rparr>) of
           Return r w' \<Rightarrow> (Some r, w')
         | Retry fp w' \<Rightarrow> file_loop self env audio_file_path sid fp (retry_count + 1) w')
      else (None, w))"
  by pat_completeness auto
termination
  by (relation "measure (\<lambda>(self, env, p, sid, fp, rc, w). MAX_RETRIES - rc)") auto

definition speech_to_text_from_audio_file :: "asr_provider \<Rightarrow> (nat \<Rightarrow> attempt_io) \<Rightarrow> string
            \<Rightarrow> string \<Rightarrow> world \<Rightarrow> (string \<times> string option) option \<times> world" where
  "speech_to_text_from_audio_file self env audio_file_path sid w =
     file_loop self env audio_file_path sid None 0 w"

text \<open>The \<open>try\<close> block of \<open>speech_to_text_from_audio_stream\<close>.\<close>

definition stream_try :: "asr_provider \<Rightarrow> attempt_io \<Rightarrow> bytes \<Rightarrow> string \<Rightarrow> string \<Rightarrow> string option
                            \<Rightarrow> world \<Rightarrow> (py_error + string) \<times> string option \<times> world" where
  "stream_try self io audio_data sid file_extension file_path w =
     (if \<not> delete_audio_file self then
        (let filename = sid @ file_extension;
             fp = os_path_join (output_dir self) filename
         in case disk_free io of
              Inl e \<Rightarrow> (Inl e, Some fp, w)
            | Inr free_space \<Rightarrow>
               (if free_space < length audio_data * 2
                then (Inl (OSError ''insufficient disk space''), Some fp, w)
                else
                  (case write_fault io of
                     Some (e, None) \<Rightarrow> (Inl e, Some fp, w)
                   | Some (e, Some part) \<Rightarrow>
                       (Inl e, Some fp, w\<lparr>files := (files w)(fp \<mapsto> part)\<rparr>)
                   | None \<Rightarrow>
                       infer io audio_data (Some fp) (w\<lparr>files := (files w)(fp \<mapsto> audio_data)\<rparr>))))
      else infer io audio_data file_path w)"

text \<open>Its \<open>finally\<close> clause has no test against a caller's file.\<close>

definition stream_cleanup :: "asr_provider \<Rightarrow> attempt_io \<Rightarrow> string option \<Rightarrow> world \<Rightarrow> world" where
  "stream_cleanup self io file_path w =
     (case file_path of
        None \<Rightarrow> w
      | Some fp \<Rightarrow>
          (if delete_audio_file self \<and> fp \<noteq> [] \<and> files w fp \<noteq> None
           then (case remove_fault io of
                   Some e \<Rightarrow> w
                 | None \<Rightarrow> w\<lparr>files := (files w)(fp := None)\<rparr>)
           else w))"

text \<open>Its handlers: \<open>OSError\<close> (with every subclass), then \<open>Exception\<close>.\<close>

definition stream_attempt :: "asr_provider \<Rightarrow> attempt_io \<Rightarrow> bytes \<Rightarrow> string \<Rightarrow> string
                                \<Rightarrow> string option \<Rightarrow> nat \<Rightarrow> world \<Rightarrow> attempt_result" where
  "stream_attempt self io audio_data sid file_extension file_path retry_count w =
     (case stream_try self io audio_data sid file_extension file_path w of
        (Inr text, fp, w1) \<Rightarrow> Return (text, fp) (stream_cleanup self io fp w1)
      | (Inl e, fp, w1) \<Rightarrow>
          (if is_OSError e then
             (if retry_count + 1 \<ge> MAX_RETRIES
              then Return ('''', fp) (stream_cleanup self io fp w1)
              else Retry fp (stream_cleanup self io fp (w1\<lparr>sleeps := sleeps w1 @ [RETRY_DELAY]\<rparr>)))
           else Return ('''', fp) (stream_cleanup self io fp w1)))"

function stream_loop :: "asr_provider \<Rightarrow> (nat \<Rightarrow> attempt_io) \<Rightarrow> bytes \<Rightarrow> string \<Rightarrow> string
                           \<Rightarrow> string option \<Rightarrow> nat \<Rightarrow> world
                           \<Rightarrow> (string \<times> string option) option \<times> world" where
  "stream_loop self env audio_data sid file_extension file_path retry_count w =
     (if retry_count < MAX_RETRIES then
        (case stream_attempt self (env retry_count) audio_data sid file_extension file_path
                retry_count (w\<lparr>attempts := Suc (attempts w)\<rparr>) of
           Return r w' \<Rightarrow> (Some r, w')
         | Retry fp w' \<Rightarrow>
             stream_loop self env audio_data sid file_extension fp (retry_count + 1) w')
      else (None, w))"
  by pat_completeness auto
termination
  by (relation "measure (\<lambda>(self, env, d, sid, ext, fp, rc, w). MAX_RETRIES - rc)") auto

text \<open>
  \<open>speech_to_text_from_audio_stream\<close>: the extension is validated before the loop and
  outside any handler, so the \<open>ValueError\<close> reaches the caller.
\<close>

definition speech_to_text_from_audio_stream :: "asr_provider \<Rightarrow> (nat \<Rightarrow> attempt_io) \<Rightarrow> bytes
            \<Rightarrow> string \<Rightarrow> string \<Rightarrow> world
            \<Rightarrow> (py_error + (string \<times> string option) option) \<times> world" where
  "speech_to_text_from_audio_stream self env audio_data sid file_extension w =
     (if lower file_extension \<notin> set supported_formats
      then (Inl (ValueError ''unsupported audio format''), w)
      else (case stream_loop self env audio_data sid file_extension None 0 w of
              (r, w') \<Rightarrow> (Inr r, w')))"

section \<open>app.py: process_voice_query\<close>

text \<open>
  The entries \<open>asr\<close>, \<open>llm\<close> and \<open>tts\<close> of the global \<open>modules\<close> dictionary, \<open>None\<close>
  when the key is missing. The recognizer comes with the environment of its attempts.
\<close>

record modules =
  asr_module :: "(asr_provider \<times> (nat \<Rightarrow> attempt_io)) option"
  llm_module :: "llm option"
  tts_module :: "tts_env option"

text \<open>The dictionary a successful request returns.\<close>

record voice_response =
  response_session_id :: string
  recognized_text :: string
  response_text :: string
  audio_url :: "string option"
  status :: string

text \<open>
  What a request acts on: the world of the recognizer (with the file system), the number
  of \<open>llm.response\<close> invocations, the number of \<open>text_to_speak\<close> invocations, and the
  deletions handed to \<open>_schedule_delete\<close> with their delay.
\<close>

record app_world =
  machine :: world
  llm_calls :: nat
  tts_calls :: nat
  scheduled :: "(string \<times> nat) list"

text \<open>\<open>os.path.basename\<close> (posixpath).\<close>

definition basename :: "string \<Rightarrow> string" where
  "basename p = rev (takeWhile (\<lambda>c. c \<noteq> CHR ''/'') (rev p))"

text \<open>
  Step 3 of \<open>process_voice_query\<close>, the inner \<open>try\<close> statement: one call of
  \<open>text_to_speak\<close> on \<open>tts_MessageText\<close> and the generated file name. When it raises,
  \<open>audio_url\<close> is \<open>None\<close>. \<open>config\<close> is \<open>None\<close>, or the dictionary's entry for
  \<open>delete_audio\<close> (\<open>None\<close> when the key is missing); the deletion is scheduled unless
  the entry is there and false.
\<close>

definition synthesize_reply :: "tts_env \<Rightarrow> bool option option \<Rightarrow> string \<Rightarrow> string \<Rightarrow> app_world
                                  \<Rightarrow> string option \<times> app_world" where
  "synthesize_reply t config message_text audio_file s =
     (case text_to_speak t (tts_calls s) message_text (Some audio_file) (files (machine s)) of
        (Inl e, f) \<Rightarrow>
          (None, s\<lparr>machine := (machine s)\<lparr>files := f\<rparr>, tts_calls := Suc (tts_calls s)\<rparr>)
      | (Inr _, f) \<Rightarrow>
          (let delete_audio = (case config of Some (Some b) \<Rightarrow> b | _ \<Rightarrow> True);
               s1 = s\<lparr>machine := (machine s)\<lparr>files := f\<rparr>, tts_calls := Suc (tts_calls s)\<rparr>
           in (Some (''/audio/'' @ basename audio_file),
               if delete_audio then s1\<lparr>scheduled := scheduled s1 @ [(audio_file, 300)]\<rparr>
               else s1)))"

text \<open>
  \<open>process_voice_query(audio_file_path, session_id)\<close>. The values drawn at random are
  arguments, in the order the source draws them: \<open>new_session\<close> (\<open>uuid.uuid4()\<close> for a
  missing session id), \<open>conn_uuid\<close> (the session id of the \<open>ConnectionHandler\<close>),
  \<open>sentence_uuid\<close> (drawn by \<open>chat\<close>) and \<open>audio_file\<close> (\<open>generate_filename\<close>).
  \<open>conn.chat\<close> invokes \<open>llm.response\<close> once, unless \<open>config\<close> is \<open>None\<close>: the
  handler holds a copy of it, and the argument \<open>self.config.get("voiceprint", {})\<close> of the
  call then raises \<open>AttributeError\<close> before \<open>llm.response\<close> is entered. The outer
  \<open>except\<close> clause logs and raises again, so \<open>Inl\<close> is the exception that leaves the
  function.
\<close>

definition process_voice_query :: "modules \<Rightarrow> bool option option \<Rightarrow> string \<Rightarrow> string \<Rightarrow> string
            \<Rightarrow> string \<Rightarrow> string \<Rightarrow> string option \<Rightarrow> app_world
            \<Rightarrow> (py_error + voice_response) \<times> app_world" where
  "process_voice_query mods config new_session conn_uuid sentence_uuid audio_file
       audio_file_path session s =
     (case (asr_module mods, llm_module mods, tts_module mods) of
        (Some (recognizer, env), Some model, Some t) \<Rightarrow>
          (let sid = (case session of
                        None \<Rightarrow> new_session
                      | Some x \<Rightarrow> if x = [] then new_session else x)
           in case speech_to_text_from_audio_file recognizer env audio_file_path sid
                     (machine s) of
                (None, w1) \<Rightarrow>
                  (Inl (Exception ''cannot unpack non-iterable NoneType object''),
                   s\<lparr>machine := w1\<rparr>)
              | (Some (recognized, _), w1) \<Rightarrow>
                  (if recognized = []
                   then (Inl (Exception ''speech recognition failed''), s\<lparr>machine := w1\<rparr>)
                   else
                     (let invoke = (case config of
                                      None \<Rightarrow> (\<lambda>i d. Inl (AttributeError ''get''))
                                    | Some _ \<Rightarrow> model);
                          s1 = s\<lparr>machine := w1,
                                 llm_calls := (case config of
                                                 None \<Rightarrow> llm_calls s
                                               | Some _ \<Rightarrow> Suc (llm_calls s))\<rparr>
                      in case chat invoke sentence_uuid (init_handler conn_uuid) recognized 0 of
                           (Inl e, conn, n) \<Rightarrow> (Inl e, s1)
                         | (Inr RetNone, conn, n) \<Rightarrow>
                             (Inl (Exception ''dialogue processing failed''), s1)
                         | (Inr RetTrue, conn, n) \<Rightarrow>
                             (case synthesize_reply t config (tts_MessageText conn) audio_file s1 of
                                (url, s2) \<Rightarrow>
                                  (Inr \<lparr>response_session_id = sid,
                                        recognized_text = recognized,
                                        response_text = tts_MessageText conn,
                                        audio_url = url,
                                        status = ''success''\<rparr>, s2)))))
      | _ \<Rightarrow> (Inl (Exception ''system modules not initialised''), s))"

section \<open>Properties of the dialogue turn\<close>

text \<open>The non-empty fragments among the events, in arrival order.\<close>

fun fragments :: "stream_event list \<Rightarrow> string list" where
  "fragments [] = []"
| "fragments (Yield _ (Some t) # rest) = (if length t > 0 then t # fragments rest else fragments rest)"
| "fragments (_ # rest) = fragments rest"

text \<open>The dialogue once \<open>chat\<close> has dealt with the prompt.\<close>

definition with_prompt :: "connection_handler \<Rightarrow> string \<Rightarrow> nat \<Rightarrow> message list" where
  "with_prompt h query depth =
     (if depth = 0 then put (dialogue h) \<lparr>role = ''user'', content = query\<rparr> else dialogue h)"

text \<open>No abort and no fault among the events.\<close>

definition undisturbed :: "stream_event list \<Rightarrow> bool" where
  "undisturbed evs = list_all (\<lambda>ev. case ev of Yield b _ \<Rightarrow> \<not> b | StreamRaise _ \<Rightarrow> False) evs"

text \<open>Every event yields \<open>None\<close> or the empty string.\<close>

definition all_blank :: "stream_event list \<Rightarrow> bool" where
  "all_blank evs = list_all (\<lambda>ev. case ev of Yield _ None \<Rightarrow> True
                                  | Yield _ (Some t) \<Rightarrow> t = [] | StreamRaise _ \<Rightarrow> False) evs"

lemma consume_undisturbed:
  "undisturbed pre \<Longrightarrow>
   consume (pre @ rest) False acc n = consume rest False (acc @ fragments pre) (n + length pre)"
proof (induction pre arbitrary: acc n)
  case Nil
  then show ?case by simp
next
  case (Cons ev pre)
  then show ?case
    by (cases ev) (auto simp: undisturbed_def split: option.splits)
qed

lemma consume_blank:
  "all_blank evs \<Longrightarrow> \<exists>ab' n'. consume evs ab acc n = Inr (ab', acc, n')"
proof (induction evs arbitrary: ab n)
  case Nil
  then show ?case by simp
next
  case (Cons ev evs)
  then show ?case
    by (cases ev) (auto simp: all_blank_def Let_def split: option.splits)
qed

lemma chat_dialogue_prompt:
  "dialogue (if depth = 0
             then (h\<lparr>llm_finish_task := False\<rparr>)\<lparr>sentence_id := Some fresh,
                    dialogue := put (dialogue (h\<lparr>llm_finish_task := False\<rparr>))
                                  \<lparr>role = ''user'', content = query\<rparr>\<rparr>
             else h\<lparr>llm_finish_task := False\<rparr>) = with_prompt h query depth"
  by (simp add: with_prompt_def)

text \<open>
  C1 (as the code has it). When the abort flag is observed at some fragment, after
  fragments consumed without abort or fault, \<open>chat\<close> raises nothing and requests no
  fragment beyond that one; the fragment at which the flag is observed is dropped, but
  the text accumulated before is kept: if it is non-empty it is stored and appended to
  the dialogue as the assistant message. The turn returns \<open>True\<close>.
\<close>

theorem chat_abort_keeps_accumulated:
  assumes "model (session_id h) (with_prompt h query depth) = Inr (pre @ Yield True c # post)"
    and "undisturbed pre"
  shows "fst (chat model fresh h query depth) = Inr RetTrue
       \<and> snd (snd (chat model fresh h query depth)) = length pre + 1
       \<and> dialogue (fst (snd (chat model fresh h query depth))) =
           (if fragments pre = [] then with_prompt h query depth
            else put (with_prompt h query depth)
                   \<lparr>role = ''assistant'', content = concat (fragments pre)\<rparr>)
       \<and> client_abort (fst (snd (chat model fresh h query depth))) = Attr True"
proof -
  have c: "consume (pre @ Yield True c # post) False [] 0
             = Inr (True, fragments pre, length pre + 1)"
    using consume_undisturbed [OF assms(2), of "Yield True c # post" "[]" 0] by simp
  show ?thesis
    using assms(1) c
    by (cases "depth = 0") (simp_all add: chat_def with_prompt_def Let_def)
qed

theorem chat_abort_keeps_accumulated_witness:
  "undisturbed [Yield False (Some ''Hi'')]
   \<and> fst (chat (\<lambda>sid d. Inr ([Yield False (Some ''Hi'')] @ Yield True (Some ''there'') # [Yield False (Some ''!'')]))
          ''u1'' (init_handler ''s1'') ''hello'' 0) = Inr RetTrue
   \<and> snd (snd (chat (\<lambda>sid d. Inr ([Yield False (Some ''Hi'')] @ Yield True (Some ''there'') # [Yield False (Some ''!'')]))
          ''u1'' (init_handler ''s1'') ''hello'' 0)) = 2
   \<and> dialogue (fst (snd (chat (\<lambda>sid d. Inr ([Yield False (Some ''Hi'')] @ Yield True (Some ''there'') # [Yield False (Some ''!'')]))
          ''u1'' (init_handler ''s1'') ''hello'' 0))) =
       [\<lparr>role = ''user'', content = ''hello''\<rparr>, \<lparr>role = ''assistant'', content = ''Hi''\<rparr>]"
proof -
  have u: "undisturbed [Yield False (Some ''Hi'')]"
    by (simp add: undisturbed_def)
  have m: "(\<lambda>sid d. Inr ([Yield False (Some ''Hi'')] @ Yield True (Some ''there'') # [Yield False (Some ''!'')]))
             (session_id (init_handler ''s1'')) (with_prompt (init_handler ''s1'') ''hello'' 0)
           = Inr ([Yield False (Some ''Hi'')] @ Yield True (Some ''there'') # [Yield False (Some ''!'')])"
    by simp
  show ?thesis
    using u chat_abort_keeps_accumulated [OF m u, of "''u1''"]
    by (simp add: with_prompt_def put_def init_handler_def)
qed

text \<open>
  C1 (as stated) fails: the flag is observed at the second fragment, yet the turn
  returns \<open>True\<close> and the first fragment has become the assistant message.
\<close>

theorem chat_abort_counterexample:
  "fst (chat (\<lambda>sid d. Inr [Yield False (Some ''Hi''), Yield True (Some ''there''), Yield False (Some ''!'')])
          ''u1'' (init_handler ''s1'') ''hello'' 0) = Inr RetTrue
   \<and> dialogue (fst (snd (chat (\<lambda>sid d. Inr [Yield False (Some ''Hi''), Yield True (Some ''there''), Yield False (Some ''!'')])
          ''u1'' (init_handler ''s1'') ''hello'' 0))) =
       [\<lparr>role = ''user'', content = ''hello''\<rparr>, \<lparr>role = ''assistant'', content = ''Hi''\<rparr>]"
  by (simp add: chat_def init_handler_def put_def Let_def)

lemma consume_raise:
  "undisturbed pre \<Longrightarrow>
   consume (pre @ StreamRaise e # post) False acc n = Inl (e, Suc (n + length pre))"
  using consume_undisturbed [of pre "StreamRaise e # post" acc n] by simp

lemma consume_blank_abort:
  "all_blank pre \<Longrightarrow> \<not> undisturbed pre \<Longrightarrow>
   \<exists>n'. consume (pre @ rest) ab acc n = Inr (True, acc, n')"
proof (induction pre arbitrary: ab n)
  case Nil
  then show ?case by (simp add: undisturbed_def)
next
  case (Cons ev pre)
  then show ?case
    by (cases ev) (auto simp: all_blank_def undisturbed_def Let_def split: option.splits)
qed

text \<open>
  C5 (as the code has it). When the model invocation raises, \<open>chat\<close> returns \<open>None\<close>
  and the dialogue holds no assistant message of this turn. When the stream ends or is
  aborted having yielded only \<open>None\<close> or empty fragments, no assistant message is
  appended either, but the turn returns \<open>True\<close>. When the stream raises after only
  \<open>None\<close> or empty fragments, no assistant message is appended either: if no abort flag
  was observed before, the exception leaves \<open>chat\<close> (neither \<open>True\<close> nor \<open>None\<close>);
  otherwise the turn stopped at the abort and returns \<open>True\<close>.
\<close>

theorem chat_no_reply:
  "(model (session_id h) (with_prompt h query depth) = Inl e \<longrightarrow>
      fst (chat model fresh h query depth) = Inr RetNone
    \<and> dialogue (fst (snd (chat model fresh h query depth))) = with_prompt h query depth)
   \<and> (model (session_id h) (with_prompt h query depth) = Inr evs \<and> all_blank evs \<longrightarrow>
      fst (chat model fresh h query depth) = Inr RetTrue
    \<and> dialogue (fst (snd (chat model fresh h query depth))) = with_prompt h query depth)
   \<and> (model (session_id h) (with_prompt h query depth) = Inr (pre @ StreamRaise e # post)
        \<and> all_blank pre \<longrightarrow>
      fst (chat model fresh h query depth) = (if undisturbed pre then Inl e else Inr RetTrue)
    \<and> dialogue (fst (snd (chat model fresh h query depth))) = with_prompt h query depth)"
proof (intro conjI impI)
  assume a: "model (session_id h) (with_prompt h query depth) = Inl e"
  then show "fst (chat model fresh h query depth) = Inr RetNone"
    by (cases "depth = 0") (simp_all add: chat_def with_prompt_def Let_def)
  from a show "dialogue (fst (snd (chat model fresh h query depth))) = with_prompt h query depth"
    by (cases "depth = 0") (simp_all add: chat_def with_prompt_def Let_def)
next
  assume b: "model (session_id h) (with_prompt h query depth) = Inr evs \<and> all_blank evs"
  then obtain ab' n' where c: "consume evs False [] 0 = Inr (ab', [], n')"
    using consume_blank [of evs False "[]" 0] by blast
  from b c show "fst (chat model fresh h query depth) = Inr RetTrue"
    by (cases "depth = 0") (simp_all add: chat_def with_prompt_def Let_def)
  from b c show "dialogue (fst (snd (chat model fresh h query depth))) = with_prompt h query depth"
    by (cases "depth = 0") (simp_all add: chat_def with_prompt_def Let_def)
next
  assume r: "model (session_id h) (with_prompt h query depth) = Inr (pre @ StreamRaise e # post)
               \<and> all_blank pre"
  have c: "(undisturbed pre \<and> consume (pre @ StreamRaise e # post) False [] 0
                                = Inl (e, Suc (length pre)))
         \<or> (\<not> undisturbed pre \<and> (\<exists>n'. consume (pre @ StreamRaise e # post) False [] 0
                                          = Inr (True, [], n')))"
    using r consume_raise [of pre e post "[]" 0]
      consume_blank_abort [of pre "StreamRaise e # post" False "[]" 0]
    by (cases "undisturbed pre") simp_all
  from r c show "fst (chat model fresh h query depth)
                   = (if undisturbed pre then Inl e else Inr RetTrue)"
    by (cases "depth = 0") (auto simp add: chat_def with_prompt_def Let_def)
  from r c show "dialogue (fst (snd (chat model fresh h query depth))) = with_prompt h query depth"
    by (cases "depth = 0") (auto simp add: chat_def with_prompt_def Let_def)
qed

theorem chat_no_reply_witness:
  "fst (chat (\<lambda>sid d. Inl (Exception ''connection refused'')) ''u1'' (init_handler ''s1'') ''hello'' 0)
     = Inr RetNone
   \<and> dialogue (fst (snd (chat (\<lambda>sid d. Inl (Exception ''connection refused'')) ''u1''
                           (init_handler ''s1'') ''hello'' 0)))
     = [\<lparr>role = ''user'', content = ''hello''\<rparr>]
   \<and> all_blank [Yield False None, Yield False (Some [])]
   \<and> fst (chat (\<lambda>sid d. Inr [Yield False None, Yield False (Some [])]) ''u1''
             (init_handler ''s1'') ''hello'' 0) = Inr RetTrue
   \<and> dialogue (fst (snd (chat (\<lambda>sid d. Inr [Yield False None, Yield False (Some [])]) ''u1''
                           (init_handler ''s1'') ''hello'' 0)))
     = [\<lparr>role = ''user'', content = ''hello''\<rparr>]
   \<and> undisturbed [Yield False None, Yield False (Some [])]
   \<and> fst (chat (\<lambda>sid d. Inr ([Yield False None, Yield False (Some [])]
                               @ StreamRaise (Exception ''reset'') # [])) ''u1''
             (init_handler ''s1'') ''hello'' 0) = Inl (Exception ''reset'')
   \<and> dialogue (fst (snd (chat (\<lambda>sid d. Inr ([Yield False None, Yield False (Some [])]
                               @ StreamRaise (Exception ''reset'') # [])) ''u1''
                           (init_handler ''s1'') ''hello'' 0)))
     = [\<lparr>role = ''user'', content = ''hello''\<rparr>]
   \<and> all_blank [Yield True None]
   \<and> fst (chat (\<lambda>sid d. Inr ([Yield True None] @ StreamRaise (Exception ''reset'') # [])) ''u1''
             (init_handler ''s1'') ''hello'' 0) = Inr RetTrue"
proof -
  have b: "all_blank [Yield False None, Yield False (Some [])]"
    by (simp add: all_blank_def)
  have u: "undisturbed [Yield False None, Yield False (Some [])]"
    by (simp add: undisturbed_def)
  have b': "all_blank [Yield True None]"
    by (simp add: all_blank_def)
  have u': "\<not> undisturbed [Yield True None]"
    by (simp add: undisturbed_def)
  have p: "with_prompt (init_handler ''s1'') ''hello'' 0 = [\<lparr>role = ''user'', content = ''hello''\<rparr>]"
    by (simp add: with_prompt_def put_def init_handler_def)
  show ?thesis
    using b u b' u' p
      chat_no_reply [of "\<lambda>sid d. Inr ([Yield True None] @ StreamRaise (Exception ''reset'') # [])"
                        "init_handler ''s1''" "''hello''" 0 "Exception ''reset''" "''u1''" "[]"
                        "[Yield True None]" "[]"]
      chat_no_reply [of "\<lambda>sid d. Inl (Exception ''connection refused'')" "init_handler ''s1''"
                        "''hello''" 0 "Exception ''connection refused''" "''u1''" "[]" "[]" "[]"]
      chat_no_reply [of "\<lambda>sid d. Inr [Yield False None, Yield False (Some [])]" "init_handler ''s1''"
                        "''hello''" 0 "Exception ''x''" "''u1''" "[Yield False None, Yield False (Some [])]"
                        "[]" "[]"]
      chat_no_reply [of "\<lambda>sid d. Inr ([Yield False None, Yield False (Some [])]
                                        @ StreamRaise (Exception ''reset'') # [])"
                        "init_handler ''s1''" "''hello''" 0 "Exception ''reset''" "''u1''" "[]"
                        "[Yield False None, Yield False (Some [])]" "[]"]
    by simp
qed

text \<open>
  C5 (as stated) fails: a stream that yields nothing at all makes the turn return
  \<open>True\<close>, not a failure.
\<close>

theorem chat_empty_stream_counterexample:
  "fst (chat (\<lambda>sid d. Inr []) ''u1'' (init_handler ''s1'') ''hello'' 0) = Inr RetTrue"
  by (simp add: chat_def init_handler_def put_def Let_def)

section \<open>Closing a session\<close>

text \<open>
  C8 (what the code does). On a handler as \<open>__init__\<close> leaves it, whatever the
  synthesizer and the pool would do, \<open>close\<close> raises \<open>AttributeError\<close> from its
  \<open>finally\<close> clause: \<open>stop_event\<close> was never created. No cleanup step is reached,
  and the handler is unchanged, so that every later call does the same.
\<close>

theorem close_fresh_handler_raises:
  "close tts shutdown (init_handler u) =
     (Some (AttributeError ''stop_event''), init_handler u, [], [AttributeError ''stop_event''])"
  by (simp add: close_def close_try_def init_handler_def)

section \<open>The retry budget of the synthesizer\<close>

text \<open>
  A run of the persistent loop that keeps meeting its guard, with a body that never
  raises, is a run that never ends.
\<close>

lemma persist_loop_never:
  assumes step: "\<And>s. I s \<Longrightarrow> persist_guard tmp s
                       \<and> (\<exists>s'. persist_body env text tmp s = (None, s') \<and> I s')"
    and start: "I s"
  shows "persist_loop env text tmp s = None"
proof (rule ccontr)
  assume "persist_loop env text tmp s \<noteq> None"
  then obtain y where y: "persist_loop env text tmp s = Some y" by auto
  have "env = env \<and> text = text \<and> tmp = tmp \<longrightarrow> \<not> I s"
  proof (rule persist_loop.raw_induct
      [where P = "\<lambda>e t f s y. e = env \<and> t = text \<and> f = tmp \<longrightarrow> \<not> I s", OF _ y])
    fix loop e t f s y
    assume ih: "\<And>t f s b y. loop t f s b = Some y \<Longrightarrow> t = env \<and> f = text \<and> s = tmp \<longrightarrow> \<not> I b"
      and eq: "(if persist_guard f s
                then case persist_body e t f s of (None, s') \<Rightarrow> loop e t f s'
                     | (Some e, s') \<Rightarrow> Some (Some e, s')
                else Some (None, s)) = Some y"
    show "e = env \<and> t = text \<and> f = tmp \<longrightarrow> \<not> I s"
    proof (intro impI notI)
      assume a: "e = env \<and> t = text \<and> f = tmp" and i: "I s"
      from step [OF i] obtain s' where g: "persist_guard tmp s"
        and b: "persist_body env text tmp s = (None, s')" and i': "I s'" by blast
      from eq a g b have "loop env text tmp s' = Some y" by simp
      from ih [OF this] i' show False by simp
    qed
  qed
  with start show False by simp
qed

text \<open>The loop is its first \<open>k\<close> iterations followed by the loop.\<close>

lemma persist_loop_iterate:
  "persist_loop env text tmp s =
     (case persist_iterate env text tmp k s of
        (Some e, s') \<Rightarrow> Some (Some e, s')
      | (None, s') \<Rightarrow> persist_loop env text tmp s')"
proof (induction k arbitrary: s)
  case 0
  show ?case by simp
next
  case (Suc k)
  show ?case
  proof (cases "persist_guard tmp s")
    case False
    then show ?thesis
      by (simp add: persist_loop.simps [of env "text" tmp s])
  next
    case True
    obtain r s' where b: "persist_body env text tmp s = (r, s')"
      by (cases "persist_body env text tmp s")
    show ?thesis
    proof (cases r)
      case None
      with True b Suc [of s'] show ?thesis
        by (simp add: persist_loop.simps [of env "text" tmp s])
    next
      case (Some e)
      with True b show ?thesis
        by (simp add: persist_loop.simps [of env "text" tmp s])
    qed
  qed
qed

text \<open>A backend that returns normally without writing the target file.\<close>

lemma silent_step:
  assumes silent: "\<And>n f. f tmp = None \<Longrightarrow>
             \<exists>r f'. text_to_speak env n text (Some tmp) f = (Inr r, f') \<and> f' tmp = None"
    and fresh: "files w tmp = None"
  shows "\<exists>f'. persist_body env text tmp (w, m) = (None, w\<lparr>files := f', calls := Suc (calls w)\<rparr>, m)
              \<and> f' tmp = None"
proof -
  from fresh silent [where f = "files w" and n = "calls w"] obtain r f'
    where "text_to_speak env (calls w) text (Some tmp) (files w) = (Inr r, f')" and "f' tmp = None"
    by blast
  then show ?thesis
    by (intro exI [of _ f']) (simp add: persist_body_def)
qed

lemma silent_iterate:
  assumes silent: "\<And>n f. f tmp = None \<Longrightarrow>
             \<exists>r f'. text_to_speak env n text (Some tmp) f = (Inr r, f') \<and> f' tmp = None"
  shows "files w tmp = None \<Longrightarrow>
         \<exists>w'. persist_iterate env text tmp k (w, 5) = (None, w', 5)
              \<and> calls w' = calls w + k \<and> files w' tmp = None"
proof (induction k arbitrary: w)
  case 0
  then show ?case by simp
next
  case (Suc k)
  from silent_step [OF silent Suc.prems, of 5] obtain f'
    where b: "persist_body env text tmp (w, 5) = (None, w\<lparr>files := f', calls := Suc (calls w)\<rparr>, 5)"
      and f': "f' tmp = None"
    by blast
  have "files (w\<lparr>files := f', calls := Suc (calls w)\<rparr>) tmp = None"
    using f' by simp
  from Suc.IH [OF this] obtain w'
    where "persist_iterate env text tmp k (w\<lparr>files := f', calls := Suc (calls w)\<rparr>, 5) = (None, w', 5)"
      and "calls w' = Suc (calls w) + k" and "files w' tmp = None"
    by auto
  with b Suc.prems show ?case
    by (simp add: persist_guard_def)
qed

lemma silent_loop_never:
  assumes silent: "\<And>n f. f tmp = None \<Longrightarrow>
             \<exists>r f'. text_to_speak env n text (Some tmp) f = (Inr r, f') \<and> f' tmp = None"
    and fresh: "files w tmp = None"
  shows "persist_loop env text tmp (w, 5) = None"
proof (rule persist_loop_never [where I = "\<lambda>s. files (fst s) tmp = None \<and> snd s = 5"])
  fix s :: "world \<times> int"
  assume i: "files (fst s) tmp = None \<and> snd s = 5"
  obtain w' m where s: "s = (w', m)" by (cases s)
  with i have fr: "files w' tmp = None" and m: "m = 5" by simp_all
  from silent_step [OF silent fr, of 5] obtain f'
    where "persist_body env text tmp (w', 5) = (None, w'\<lparr>files := f', calls := Suc (calls w')\<rparr>, 5)"
      and "f' tmp = None"
    by blast
  with s fr m show "persist_guard tmp s
        \<and> (\<exists>s'. persist_body env text tmp s = (None, s') \<and> files (fst s') tmp = None \<and> snd s' = 5)"
    by (simp add: persist_guard_def)
next
  from fresh show "files (fst (w, 5::int)) tmp = None \<and> snd (w, 5::int) = 5" by simp
qed

text \<open>
  C2 (what the code does in persistent mode). With a backend that on every attempt
  returns without raising and without the target file existing, the loop never gives up:
  after its first \<open>k\<close> iterations, for every \<open>k\<close>, the backend has been invoked \<open>k\<close>
  more times, \<open>max_repeat_time\<close> is still 5 and the guard still holds; neither
  \<open>to_tts\<close> nor \<open>to_tts_stream\<close> returns.
\<close>

theorem persistent_silent_backend_unbounded:
  assumes fresh: "files w tmp = None"
    and silent: "\<And>n f. f tmp = None \<Longrightarrow>
          \<exists>r f'. text_to_speak env n (clean_markdown env text) (Some tmp) f = (Inr r, f')
                 \<and> f' tmp = None"
  shows "(\<forall>k. \<exists>w'. persist_iterate env (clean_markdown env text) tmp k (w, 5) = (None, w', 5)
                   \<and> calls w' = calls w + k \<and> persist_guard tmp (w', 5))
       \<and> to_tts env False text tmp w = None
       \<and> to_tts_stream env False out text tmp w = None"
proof (intro conjI allI)
  fix k
  from silent_iterate [OF silent fresh, of k]
  show "\<exists>w'. persist_iterate env (clean_markdown env text) tmp k (w, 5) = (None, w', 5)
             \<and> calls w' = calls w + k \<and> persist_guard tmp (w', 5)"
    by (auto simp: persist_guard_def)
next
  from silent_loop_never [OF silent fresh]
  show "to_tts env False text tmp w = None"
    by (simp add: to_tts_def)
next
  from silent_loop_never [OF silent fresh]
  show "to_tts_stream env False out text tmp w = None"
    by (simp add: to_tts_stream_def)
qed

theorem persistent_silent_backend_unbounded_witness:
  "files \<lparr>files = Map.empty, calls = 0, attempts = 0, sleeps = [], delivered = []\<rparr>
         ''tmp/tts-2025-01-01@0a1b.wav'' = None
   \<and> (\<forall>k. \<exists>w'. persist_iterate
                   \<lparr>text_to_speak = (\<lambda>n t out f. (Inr None, f)), clean_markdown = (\<lambda>t. t),
                     audio_bytes_to_data_stream = (\<lambda>b. ([b], None)),
                     decode_file = (\<lambda>p f. ([], None)), os_remove_fault = (\<lambda>n. None)\<rparr>
                   ''hello'' ''tmp/tts-2025-01-01@0a1b.wav'' k
                   (\<lparr>files = Map.empty, calls = 0, attempts = 0, sleeps = [], delivered = []\<rparr>, 5)
                 = (None, w', 5)
              \<and> calls w' = k \<and> persist_guard ''tmp/tts-2025-01-01@0a1b.wav'' (w', 5))
   \<and> to_tts \<lparr>text_to_speak = (\<lambda>n t out f. (Inr None, f)), clean_markdown = (\<lambda>t. t),
              audio_bytes_to_data_stream = (\<lambda>b. ([b], None)),
              decode_file = (\<lambda>p f. ([], None)), os_remove_fault = (\<lambda>n. None)\<rparr>
        False ''hello'' ''tmp/tts-2025-01-01@0a1b.wav''
        \<lparr>files = Map.empty, calls = 0, attempts = 0, sleeps = [], delivered = []\<rparr> = None
   \<and> to_tts_stream \<lparr>text_to_speak = (\<lambda>n t out f. (Inr None, f)), clean_markdown = (\<lambda>t. t),
              audio_bytes_to_data_stream = (\<lambda>b. ([b], None)),
              decode_file = (\<lambda>p f. ([], None)), os_remove_fault = (\<lambda>n. None)\<rparr>
        False ''tmp/'' ''hello'' ''tmp/tts-2025-01-01@0a1b.wav''
        \<lparr>files = Map.empty, calls = 0, attempts = 0, sleeps = [], delivered = []\<rparr> = None"
  using persistent_silent_backend_unbounded
    [of "\<lparr>files = Map.empty, calls = 0, attempts = 0, sleeps = [], delivered = []\<rparr>"
        "''tmp/tts-2025-01-01@0a1b.wav''"
        "\<lparr>text_to_speak = (\<lambda>n t out f. (Inr None, f)), clean_markdown = (\<lambda>t. t),
          audio_bytes_to_data_stream = (\<lambda>b. ([b], None)),
          decode_file = (\<lambda>p f. ([], None)), os_remove_fault = (\<lambda>n. None)\<rparr>"
        "''hello''" "''tmp/''"]
  by simp

text \<open>
  The part of C2 that holds. In ephemeral mode every failed attempt (a raise, empty
  bytes, an encoder that raises) costs one repetition: a backend that never yields
  bytes is invoked exactly 5 times and \<open>to_tts\<close> returns \<open>None\<close>.
\<close>

lemma to_tts_bytes_cap:
  assumes fails: "\<And>n f. \<exists>f'. (\<exists>e. text_to_speak env n text None f = (Inl e, f'))
                         \<or> (\<exists>b. text_to_speak env n text None f = (Inr b, f') \<and> truthy_bytes b = None)"
  shows "0 \<le> m \<Longrightarrow> \<exists>w'. to_tts_bytes env text m w = (None, w') \<and> calls w' = calls w + nat m"
proof (induction "nat m" arbitrary: m w)
  case 0
  then show ?case by simp
next
  case (Suc k)
  then have m: "m > 0" and k: "k = nat (m - 1)" and m1: "0 \<le> m - 1" by simp_all
  from fails [of "calls w" "files w"] obtain f'
    where d: "(\<exists>e. text_to_speak env (calls w) text None (files w) = (Inl e, f'))
            \<or> (\<exists>b. text_to_speak env (calls w) text None (files w) = (Inr b, f')
                   \<and> truthy_bytes b = None)"
    by blast
  from Suc.hyps(1) [OF k m1, of "w\<lparr>files := f', calls := Suc (calls w)\<rparr>"] obtain w'
    where r: "to_tts_bytes env text (m - 1) (w\<lparr>files := f', calls := Suc (calls w)\<rparr>) = (None, w')"
      and c: "calls w' = Suc (calls w) + nat (m - 1)"
    by auto
  from m c have c': "calls w' = calls w + nat m" by simp
  from d m r c' show ?case
    by (subst to_tts_bytes.simps) auto
qed

text \<open>
  In persistent mode a backend that raises on every attempt is invoked exactly 5 times;
  the loop ends with \<open>max_repeat_time = 0\<close> and the target file absent.
\<close>

lemma persist_loop_raising:
  assumes raises: "\<And>n f. \<exists>e f'. text_to_speak env n text (Some tmp) f = (Inl e, f')"
    and rm: "\<And>n. os_remove_fault env n = None"
  shows "0 \<le> m \<Longrightarrow> files w tmp = None \<Longrightarrow>
         \<exists>w'. persist_loop env text tmp (w, m) = Some (None, w', 0)
              \<and> calls w' = calls w + nat m \<and> files w' tmp = None"
proof (induction "nat m" arbitrary: m w)
  case 0
  then show ?case
    by (subst persist_loop.simps) (simp add: persist_guard_def)
next
  case (Suc k)
  then have m: "m > 0" and k: "k = nat (m - 1)" and m1: "0 \<le> m - 1" by simp_all
  from raises [of "calls w" "files w"] obtain e f'
    where t: "text_to_speak env (calls w) text (Some tmp) (files w) = (Inl e, f')"
    by blast
  define w1 where "w1 = (if f' tmp \<noteq> None then w\<lparr>files := f'(tmp := None), calls := Suc (calls w)\<rparr>
                          else w\<lparr>files := f', calls := Suc (calls w)\<rparr>)"
  have b: "persist_body env text tmp (w, m) = (None, w1, m - 1)"
    using t rm by (simp add: persist_body_def w1_def)
  have fr: "files w1 tmp = None" and c1: "calls w1 = Suc (calls w)"
    by (simp_all add: w1_def)
  from Suc.hyps(1) [OF k m1 fr] obtain w'
    where r: "persist_loop env text tmp (w1, m - 1) = Some (None, w', 0)"
      and c: "calls w' = calls w1 + nat (m - 1)" and f: "files w' tmp = None"
    by blast
  from m c c1 have c': "calls w' = calls w + nat m" by simp
  from b r c' f m Suc.prems(2) show ?case
    by (subst persist_loop.simps) (simp add: persist_guard_def)
qed

text \<open>
  C3 (what the code does). In persistent mode, when the backend raises on each of the
  5 attempts and the target file never comes to exist, \<open>to_tts\<close> has invoked the backend
  5 times and returns the path of the file that does not exist, not \<open>None\<close>.
\<close>

theorem to_tts_exhausted_returns_path:
  assumes fresh: "files w tmp = None"
    and raises: "\<And>n f. \<exists>e f'. text_to_speak env n (clean_markdown env text) (Some tmp) f = (Inl e, f')"
    and rm: "\<And>n. os_remove_fault env n = None"
  shows "\<exists>w'. to_tts env False text tmp w = Some (AudioFile tmp, w')
              \<and> calls w' = calls w + 5 \<and> files w' tmp = None"
proof -
  from persist_loop_raising [OF raises rm _ fresh, of 5] obtain w'
    where "persist_loop env (clean_markdown env text) tmp (w, 5) = Some (None, w', 0)"
      and "calls w' = calls w + 5" and "files w' tmp = None"
    by auto
  then show ?thesis
    by (simp add: to_tts_def)
qed

theorem to_tts_exhausted_returns_path_witness:
  "files \<lparr>files = Map.empty, calls = 0, attempts = 0, sleeps = [], delivered = []\<rparr>
         ''tmp/tts-2025-01-01@0a1b.wav'' = None
   \<and> (\<exists>w'. to_tts \<lparr>text_to_speak = (\<lambda>n t out f. (Inl (Exception ''no network''), f)),
                    clean_markdown = (\<lambda>t. t),
                    audio_bytes_to_data_stream = (\<lambda>b. ([b], None)),
                    decode_file = (\<lambda>p f. ([], None)), os_remove_fault = (\<lambda>n. None)\<rparr>
              False ''hello'' ''tmp/tts-2025-01-01@0a1b.wav''
              \<lparr>files = Map.empty, calls = 0, attempts = 0, sleeps = [], delivered = []\<rparr>
            = Some (AudioFile ''tmp/tts-2025-01-01@0a1b.wav'', w')
          \<and> calls w' = 5 \<and> files w' ''tmp/tts-2025-01-01@0a1b.wav'' = None)"
  using to_tts_exhausted_returns_path
    [of "\<lparr>files = Map.empty, calls = 0, attempts = 0, sleeps = [], delivered = []\<rparr>"
        "''tmp/tts-2025-01-01@0a1b.wav''"
        "\<lparr>text_to_speak = (\<lambda>n t out f. (Inl (Exception ''no network''), f)),
          clean_markdown = (\<lambda>t. t),
          audio_bytes_to_data_stream = (\<lambda>b. ([b], None)),
          decode_file = (\<lambda>p f. ([], None)), os_remove_fault = (\<lambda>n. None)\<rparr>"
        "''hello''"]
  by simp

section \<open>The recognizer: validation, retries and working files\<close>




lemma file_cleanup_keep:
  "\<not> delete_audio_file self \<Longrightarrow> file_cleanup self io p fp w = w"
  by (simp add: file_cleanup_def split: option.splits)

lemma file_cleanup_own:
  "fp = None \<or> fp = Some p \<Longrightarrow> file_cleanup self io p fp w = w"
  by (auto simp: file_cleanup_def)

lemma stream_cleanup_none:
  "stream_cleanup self io None w = w"
  by (simp add: stream_cleanup_def)

lemma unsupported_file:
  assumes u: "lower (snd (splitext p)) \<notin> set supported_formats"
  shows "speech_to_text_from_audio_file self env p sid w
           = (Some ([], None), w\<lparr>attempts := Suc (attempts w)\<rparr>)"
proof -
  have t: "file_try self (env 0) p sid None (w\<lparr>attempts := Suc (attempts w)\<rparr>)
             = (Inl (FileNotFoundError ''audio file does not exist''), None,
                w\<lparr>attempts := Suc (attempts w)\<rparr>)
         \<or> file_try self (env 0) p sid None (w\<lparr>attempts := Suc (attempts w)\<rparr>)
             = (Inl (ValueError ''unsupported audio format''), None,
                w\<lparr>attempts := Suc (attempts w)\<rparr>)"
    using u by (cases "files w p") (simp_all add: file_try_def)
  then have "file_attempt self (env 0) p sid None 0 (w\<lparr>attempts := Suc (attempts w)\<rparr>)
               = Return ([], None) (w\<lparr>attempts := Suc (attempts w)\<rparr>)"
    by (auto simp: file_attempt_def file_cleanup_def)
  then show ?thesis
    by (simp add: speech_to_text_from_audio_file_def MAX_RETRIES_def)
qed

lemma unsupported_stream:
  "lower ext \<notin> set supported_formats \<Longrightarrow>
     speech_to_text_from_audio_stream self env d sid ext w
       = (Inl (ValueError ''unsupported audio format''), w)"
  by (simp add: speech_to_text_from_audio_stream_def)

text \<open>
  C6 (as the code has it). A file whose lower-cased extension is not supported makes
  \<open>speech_to_text_from_audio_file\<close> return the empty text and no path after a single
  pass through the loop: no delay, no second attempt, and the engine is not called at
  all (the world differs only in the attempt counter). On a stream with such an
  extension \<open>speech_to_text_from_audio_stream\<close> raises \<open>ValueError\<close> before any attempt.
\<close>

theorem unsupported_extension_no_inference:
  "(lower (snd (splitext p)) \<notin> set supported_formats \<longrightarrow>
      speech_to_text_from_audio_file self env p sid w
        = (Some ([], None), w\<lparr>attempts := Suc (attempts w)\<rparr>))
   \<and> (lower ext \<notin> set supported_formats \<longrightarrow>
      speech_to_text_from_audio_stream self env d sid ext w
        = (Inl (ValueError ''unsupported audio format''), w))"
  using unsupported_file [of p self env sid w] unsupported_stream [of ext self env d sid w]
  by blast

lemma ext_txt: "lower (snd (splitext ''in/a.TXT'')) = ''.txt''"
  by (simp add: splitext_def lower_def lower_char_def)

lemma ext_wav: "lower (snd (splitext ''in/a.WAV'')) = ''.wav''"
  by (simp add: splitext_def lower_def lower_char_def)

theorem unsupported_extension_no_inference_witness:
  "lower (snd (splitext ''in/a.TXT'')) \<notin> set supported_formats
   \<and> speech_to_text_from_audio_file \<lparr>delete_audio_file = False, output_dir = ''out''\<rparr>
        (\<lambda>k. \<lparr>getsize_fault = None, disk_free = Inr 1000, copy_fault = None, write_fault = None,
               read_fault = None, generate = (\<lambda>b. Inr ''hi''), remove_fault = None\<rparr>)
        ''in/a.TXT'' ''s1''
        \<lparr>files = [''in/a.TXT'' \<mapsto> [1, 2, 3]], calls = 0, attempts = 0, sleeps = [], delivered = []\<rparr>
     = (Some ('''', None),
        \<lparr>files = [''in/a.TXT'' \<mapsto> [1, 2, 3]], calls = 0, attempts = 1, sleeps = [], delivered = []\<rparr>)
   \<and> lower ''.TXT'' \<notin> set supported_formats
   \<and> speech_to_text_from_audio_stream \<lparr>delete_audio_file = False, output_dir = ''out''\<rparr>
        (\<lambda>k. \<lparr>getsize_fault = None, disk_free = Inr 1000, copy_fault = None, write_fault = None,
               read_fault = None, generate = (\<lambda>b. Inr ''hi''), remove_fault = None\<rparr>)
        [1, 2, 3] ''s1'' ''.TXT''
        \<lparr>files = Map.empty, calls = 0, attempts = 0, sleeps = [], delivered = []\<rparr>
     = (Inl (ValueError ''unsupported audio format''),
        \<lparr>files = Map.empty, calls = 0, attempts = 0, sleeps = [], delivered = []\<rparr>)"
proof -
  have a: "lower (snd (splitext ''in/a.TXT'')) \<notin> set supported_formats"
    by (simp add: ext_txt supported_formats_def)
  have b: "lower ''.TXT'' \<notin> set supported_formats"
    by (simp add: lower_def lower_char_def supported_formats_def)
  show ?thesis
    using a b
      unsupported_extension_no_inference
        [of "''in/a.TXT''" "\<lparr>delete_audio_file = False, output_dir = ''out''\<rparr>"
            "\<lambda>k. \<lparr>getsize_fault = None, disk_free = Inr 1000, copy_fault = None, write_fault = None,
                   read_fault = None, generate = (\<lambda>b. Inr ''hi''), remove_fault = None\<rparr>"
            "''s1''"
            "\<lparr>files = [''in/a.TXT'' \<mapsto> [1, 2, 3]], calls = 0, attempts = 0, sleeps = [], delivered = []\<rparr>"
            "''.TXT''"]
      unsupported_extension_no_inference
        [of "''in/a.TXT''" "\<lparr>delete_audio_file = False, output_dir = ''out''\<rparr>"
            "\<lambda>k. \<lparr>getsize_fault = None, disk_free = Inr 1000, copy_fault = None, write_fault = None,
                   read_fault = None, generate = (\<lambda>b. Inr ''hi''), remove_fault = None\<rparr>"
            "''s1''"
            "\<lparr>files = Map.empty, calls = 0, attempts = 0, sleeps = [], delivered = []\<rparr>"
            "''.TXT''" "[1, 2, 3]"]
    by simp
qed

text \<open>
  C6 (as stated) fails: on the existing file \<open>in/a.TXT\<close> the engine is called zero times,
  not once, and the stream call with \<open>.TXT\<close> raises instead of returning an empty text.
\<close>

theorem unsupported_extension_counterexample:
  "calls (snd (speech_to_text_from_audio_file \<lparr>delete_audio_file = False, output_dir = ''out''\<rparr>
        (\<lambda>k. \<lparr>getsize_fault = None, disk_free = Inr 1000, copy_fault = None, write_fault = None,
               read_fault = None, generate = (\<lambda>b. Inr ''hi''), remove_fault = None\<rparr>)
        ''in/a.TXT'' ''s1''
        \<lparr>files = [''in/a.TXT'' \<mapsto> [1, 2, 3]], calls = 0, attempts = 0, sleeps = [], delivered = []\<rparr>))
     = 0
   \<and> fst (speech_to_text_from_audio_stream \<lparr>delete_audio_file = False, output_dir = ''out''\<rparr>
        (\<lambda>k. \<lparr>getsize_fault = None, disk_free = Inr 1000, copy_fault = None, write_fault = None,
               read_fault = None, generate = (\<lambda>b. Inr ''hi''), remove_fault = None\<rparr>)
        [1, 2, 3] ''s1'' ''.TXT''
        \<lparr>files = Map.empty, calls = 0, attempts = 0, sleeps = [], delivered = []\<rparr>)
     = Inl (ValueError ''unsupported audio format'')"
proof -
  have a: "lower (snd (splitext ''in/a.TXT'')) \<notin> set supported_formats"
    by (simp add: ext_txt supported_formats_def)
  have b: "lower ''.TXT'' \<notin> set supported_formats"
    by (simp add: lower_def lower_char_def supported_formats_def)
  show ?thesis
    by (simp add: unsupported_file [OF a] unsupported_stream [OF b])
qed












text \<open>With \<open>delete_audio_file\<close> set, no attempt changes the file system.\<close>

lemma file_try_delete:
  assumes "delete_audio_file self" and "file_try self io p sid fp w = (r, fp', w')"
  shows "files w' = files w \<and> (fp' = fp \<or> fp' = Some p)"
  using assms
  by (auto simp: file_try_def Let_def infer_def split: option.splits sum.splits if_splits)

lemma file_attempt_delete:
  assumes d: "delete_audio_file self" and own: "fp = None \<or> fp = Some p"
  shows "(\<forall>r w'. file_attempt self io p sid fp rc w = Return r w' \<longrightarrow> files w' = files w)
       \<and> (\<forall>fp' w'. file_attempt self io p sid fp rc w = Retry fp' w' \<longrightarrow>
             files w' = files w \<and> (fp' = None \<or> fp' = Some p))"
proof -
  obtain r fp' w1 where t: "file_try self io p sid fp w = (r, fp', w1)"
    by (cases "file_try self io p sid fp w")
  from file_try_delete [OF d t] own have f: "files w1 = files w" and o: "fp' = None \<or> fp' = Some p"
    by auto
  have c: "\<And>v. file_cleanup self io p fp' v = v"
    using file_cleanup_own [OF o] .
  show ?thesis
    using t f o c by (cases r) (auto simp: file_attempt_def split: if_splits)
qed

lemma file_loop_delete:
  "delete_audio_file self \<Longrightarrow> fp = None \<or> fp = Some p \<Longrightarrow>
     files (snd (file_loop self env p sid fp rc w)) = files w"
proof (induction self env p sid fp rc w rule: file_loop.induct)
  case (1 self env p sid fp rc w)
  show ?case
  proof (cases "rc < MAX_RETRIES")
    case False
    then show ?thesis by simp
  next
    case True
    let ?w = "w\<lparr>attempts := Suc (attempts w)\<rparr>"
    note fa = file_attempt_delete [OF "1.prems"(1) "1.prems"(2), of "env rc" sid rc ?w]
    show ?thesis
    proof (cases "file_attempt self (env rc) p sid fp rc ?w")
      case (Return r w')
      with fa have "files w' = files w" by simp
      with True Return show ?thesis by simp
    next
      case (Retry fp' w')
      with fa have f: "files w' = files w" and o: "fp' = None \<or> fp' = Some p" by simp_all
      from "1.IH" [OF True Retry "1.prems"(1) o] f True Retry show ?thesis by simp
    qed
  qed
qed

lemma stream_attempt_delete:
  assumes d: "delete_audio_file self"
  shows "(\<forall>r w'. stream_attempt self io a sid ext None rc w = Return r w' \<longrightarrow> files w' = files w)
       \<and> (\<forall>fp' w'. stream_attempt self io a sid ext None rc w = Retry fp' w' \<longrightarrow>
             files w' = files w \<and> fp' = None)"
  using d
  by (auto simp: stream_attempt_def stream_try_def infer_def stream_cleanup_def
           split: sum.splits if_splits)

lemma stream_loop_delete:
  "delete_audio_file self \<Longrightarrow> fp = None \<Longrightarrow>
     files (snd (stream_loop self env a sid ext fp rc w)) = files w"
proof (induction self env a sid ext fp rc w rule: stream_loop.induct)
  case (1 self env a sid ext fp rc w)
  show ?case
  proof (cases "rc < MAX_RETRIES")
    case False
    then show ?thesis by simp
  next
    case True
    let ?w = "w\<lparr>attempts := Suc (attempts w)\<rparr>"
    note sa = stream_attempt_delete [OF "1.prems"(1), of "env rc" a sid ext rc ?w]
    show ?thesis
    proof (cases "stream_attempt self (env rc) a sid ext fp rc ?w")
      case (Return r w')
      with sa "1.prems"(2) have "files w' = files w" by simp
      with True Return show ?thesis by simp
    next
      case (Retry fp' w')
      with sa "1.prems"(2) have f: "files w' = files w" and o: "fp' = None" by simp_all
      from "1.IH" [OF True Retry "1.prems"(1) o] f True Retry show ?thesis by simp
    qed
  qed
qed

text \<open>
  C9. With \<open>delete_audio_file\<close> set, a recognition call on a file or on a stream leaves
  the file system as it found it, whatever happens during the attempts: no working file
  of its own remains, and the caller's input file is not deleted.
\<close>

theorem delete_mode_leaves_no_file:
  assumes "delete_audio_file self"
  shows "files (snd (speech_to_text_from_audio_file self env p sid w)) = files w
       \<and> files (snd (speech_to_text_from_audio_stream self env a sid ext w)) = files w"
proof
  from file_loop_delete [OF assms, of None p env sid 0 w]
  show "files (snd (speech_to_text_from_audio_file self env p sid w)) = files w"
    by (simp add: speech_to_text_from_audio_file_def del: file_loop.simps)
next
  from stream_loop_delete [OF assms refl, of env a sid ext 0 w]
  show "files (snd (speech_to_text_from_audio_stream self env a sid ext w)) = files w"
    by (auto simp add: speech_to_text_from_audio_stream_def simp del: stream_loop.simps
             split: prod.splits)
qed

theorem delete_mode_leaves_no_file_witness:
  "delete_audio_file \<lparr>delete_audio_file = True, output_dir = ''out''\<rparr>
   \<and> files (snd (speech_to_text_from_audio_file \<lparr>delete_audio_file = True, output_dir = ''out''\<rparr>
        (\<lambda>k. \<lparr>getsize_fault = None, disk_free = Inr 1000, copy_fault = None, write_fault = None,
               read_fault = None, generate = (\<lambda>b. Inl (Exception ''engine'')), remove_fault = None\<rparr>)
        ''in/a.WAV'' ''s1''
        \<lparr>files = [''in/a.WAV'' \<mapsto> [1, 2, 3]], calls = 0, attempts = 0, sleeps = [], delivered = []\<rparr>))
     = [''in/a.WAV'' \<mapsto> [1, 2, 3]]
   \<and> files (snd (speech_to_text_from_audio_stream \<lparr>delete_audio_file = True, output_dir = ''out''\<rparr>
        (\<lambda>k. \<lparr>getsize_fault = None, disk_free = Inr 1000, copy_fault = None, write_fault = None,
               read_fault = None, generate = (\<lambda>b. Inl (Exception ''engine'')), remove_fault = None\<rparr>)
        [1, 2, 3] ''s1'' ''.wav''
        \<lparr>files = [''in/a.WAV'' \<mapsto> [1, 2, 3]], calls = 0, attempts = 0, sleeps = [], delivered = []\<rparr>))
     = [''in/a.WAV'' \<mapsto> [1, 2, 3]]"
  using delete_mode_leaves_no_file
    [of "\<lparr>delete_audio_file = True, output_dir = ''out''\<rparr>"
        "\<lambda>k. \<lparr>getsize_fault = None, disk_free = Inr 1000, copy_fault = None, write_fault = None,
               read_fault = None, generate = (\<lambda>b. Inl (Exception ''engine'')), remove_fault = None\<rparr>"
        "''in/a.WAV''" "''s1''"
        "\<lparr>files = [''in/a.WAV'' \<mapsto> [1, 2, 3]], calls = 0, attempts = 0, sleeps = [], delivered = []\<rparr>"
        "[1, 2, 3]" "''.wav''"]
  by simp

text \<open>With retention enabled the \<open>finally\<close> clauses remove nothing.\<close>

lemma stream_cleanup_keep:
  "\<not> delete_audio_file self \<Longrightarrow> stream_cleanup self io fp w = w"
  by (simp add: stream_cleanup_def split: option.splits)

text \<open>
  A failed attempt with retention enabled either returns the empty text with the path
  the \<open>try\<close> block left, or (first attempt only) sleeps and goes round again.
\<close>

lemma file_attempt_keep:
  assumes k: "\<not> delete_audio_file self"
    and t: "file_try self io p sid fp0 w = (Inl e, fp', w')"
  shows "file_attempt self io p sid fp0 rc w = Return ([], fp') w'
       \<or> (rc = 0 \<and> file_attempt self io p sid fp0 rc w
                       = Retry fp' (w'\<lparr>sleeps := sleeps w' @ [RETRY_DELAY]\<rparr>))"
  using t by (auto simp: file_attempt_def file_cleanup_keep [OF k] MAX_RETRIES_def)

lemma stream_attempt_keep:
  assumes k: "\<not> delete_audio_file self"
    and t: "stream_try self io a sid ext fp0 w = (Inl e, fp', w')"
  shows "stream_attempt self io a sid ext fp0 rc w = Return ([], fp') w'
       \<or> (rc = 0 \<and> stream_attempt self io a sid ext fp0 rc w
                       = Retry fp' (w'\<lparr>sleeps := sleeps w' @ [RETRY_DELAY]\<rparr>))"
  using t by (auto simp: stream_attempt_def stream_cleanup_keep [OF k] MAX_RETRIES_def)

text \<open>The \<open>try\<close> blocks when the copy or the write succeeds and the engine raises.\<close>

lemma file_try_persisted:
  assumes "\<not> delete_audio_file self" and "files v p = Some a"
    and "lower (snd (splitext p)) \<in> set supported_formats"
    and "getsize_fault io = None" and "disk_free io = Inr n" and "length a * 2 \<le> n"
    and "copy_fault io = None" and "read_fault io = None" and "generate io a = Inl e"
  shows "\<exists>v'. file_try self io p sid fp0 v
                 = (Inl e, Some (os_path_join (output_dir self) (sid @ lower (snd (splitext p)))), v')
             \<and> files v' = (files v)(os_path_join (output_dir self)
                                       (sid @ lower (snd (splitext p))) \<mapsto> a)"
  using assms by (simp add: file_try_def infer_def Let_def)

lemma stream_try_persisted:
  assumes "\<not> delete_audio_file self"
    and "disk_free io = Inr n" and "length a * 2 \<le> n"
    and "write_fault io = None" and "generate io a = Inl e"
  shows "\<exists>v'. stream_try self io a sid ext fp0 v
                 = (Inl e, Some (os_path_join (output_dir self) (sid @ ext)), v')
             \<and> files v' = (files v)(os_path_join (output_dir self) (sid @ ext) \<mapsto> a)"
  using assms by (simp add: stream_try_def infer_def Let_def)

text \<open>
  The loops, when every attempt ends in an exception after leaving the audio at \<open>fp\<close>:
  the call returns the empty text together with \<open>fp\<close>, and the file is there.
\<close>

lemma file_loop_persisted:
  assumes k: "\<not> delete_audio_file self"
    and ex: "files w p = Some a"
    and step: "\<And>j fp0 v. files v p = Some a \<Longrightarrow>
          \<exists>e v'. file_try self (env j) p sid fp0 v = (Inl e, Some fp, v')
                  \<and> files v' = (files v)(fp \<mapsto> a)"
  shows "\<exists>w'. file_loop self env p sid None 0 w = (Some ([], Some fp), w')
              \<and> files w' fp = Some a"
proof -
  define w0 where "w0 = w\<lparr>attempts := Suc (attempts w)\<rparr>"
  have "files w0 p = Some a" using ex by (simp add: w0_def)
  from step [OF this, of 0 None] obtain e1 v1
    where t1: "file_try self (env 0) p sid None w0 = (Inl e1, Some fp, v1)"
      and f1: "files v1 = (files w0)(fp \<mapsto> a)"
    by blast
  from file_attempt_keep [OF k t1, of 0]
  consider (ret) "file_attempt self (env 0) p sid None 0 w0 = Return ([], Some fp) v1"
    | (again) "file_attempt self (env 0) p sid None 0 w0
                 = Retry (Some fp) (v1\<lparr>sleeps := sleeps v1 @ [RETRY_DELAY]\<rparr>)"
    by blast
  then show ?thesis
  proof cases
    case ret
    then have "file_loop self env p sid None 0 w = (Some ([], Some fp), v1)"
      by (simp add: MAX_RETRIES_def w0_def)
    with f1 show ?thesis by simp
  next
    case again
    define w1 where "w1 = v1\<lparr>sleeps := sleeps v1 @ [RETRY_DELAY]\<rparr>"
    define w2 where "w2 = w1\<lparr>attempts := Suc (attempts w1)\<rparr>"
    have "files w2 p = Some a"
      using f1 ex by (simp add: w2_def w1_def w0_def)
    from step [OF this, of 1 "Some fp"] obtain e2 v2
      where t2: "file_try self (env 1) p sid (Some fp) w2 = (Inl e2, Some fp, v2)"
        and f2: "files v2 = (files w2)(fp \<mapsto> a)"
      by blast
    from file_attempt_keep [OF k t2, of 1]
    have a2: "file_attempt self (env 1) p sid (Some fp) 1 w2 = Return ([], Some fp) v2"
      by simp
    have l2: "file_loop self env p sid (Some fp) 1 w1 = (Some ([], Some fp), v2)"
      using a2 by (subst file_loop.simps) (simp add: MAX_RETRIES_def w2_def)
    have "file_loop self env p sid None 0 w = (Some ([], Some fp), v2)"
      using again l2 by (subst file_loop.simps) (simp add: MAX_RETRIES_def w0_def w1_def)
    with f2 show ?thesis by simp
  qed
qed

lemma stream_loop_persisted:
  assumes k: "\<not> delete_audio_file self"
    and step: "\<And>j fp0 v. \<exists>e v'. stream_try self (env j) a sid ext fp0 v = (Inl e, Some fp, v')
                  \<and> files v' = (files v)(fp \<mapsto> a)"
  shows "\<exists>w'. stream_loop self env a sid ext None 0 w = (Some ([], Some fp), w')
              \<and> files w' fp = Some a"
proof -
  define w0 where "w0 = w\<lparr>attempts := Suc (attempts w)\<rparr>"
  from step [of 0 None w0] obtain e1 v1
    where t1: "stream_try self (env 0) a sid ext None w0 = (Inl e1, Some fp, v1)"
      and f1: "files v1 = (files w0)(fp \<mapsto> a)"
    by blast
  from stream_attempt_keep [OF k t1, of 0]
  consider (ret) "stream_attempt self (env 0) a sid ext None 0 w0 = Return ([], Some fp) v1"
    | (again) "stream_attempt self (env 0) a sid ext None 0 w0
                 = Retry (Some fp) (v1\<lparr>sleeps := sleeps v1 @ [RETRY_DELAY]\<rparr>)"
    by blast
  then show ?thesis
  proof cases
    case ret
    then have "stream_loop self env a sid ext None 0 w = (Some ([], Some fp), v1)"
      by (simp add: MAX_RETRIES_def w0_def)
    with f1 show ?thesis by simp
  next
    case again
    define w1 where "w1 = v1\<lparr>sleeps := sleeps v1 @ [RETRY_DELAY]\<rparr>"
    define w2 where "w2 = w1\<lparr>attempts := Suc (attempts w1)\<rparr>"
    from step [of 1 "Some fp" w2] obtain e2 v2
      where t2: "stream_try self (env 1) a sid ext (Some fp) w2 = (Inl e2, Some fp, v2)"
        and f2: "files v2 = (files w2)(fp \<mapsto> a)"
      by blast
    from stream_attempt_keep [OF k t2, of 1]
    have a2: "stream_attempt self (env 1) a sid ext (Some fp) 1 w2 = Return ([], Some fp) v2"
      by simp
    have l2: "stream_loop self env a sid ext (Some fp) 1 w1 = (Some ([], Some fp), v2)"
      using a2 by (subst stream_loop.simps) (simp add: MAX_RETRIES_def w2_def)
    have "stream_loop self env a sid ext None 0 w = (Some ([], Some fp), v2)"
      using again l2 by (subst stream_loop.simps) (simp add: MAX_RETRIES_def w0_def w1_def)
    with f2 show ?thesis by simp
  qed
qed

text \<open>
  C10. With retention enabled (\<open>delete_audio_file\<close> false), when on every attempt the
  copy (for a file) or the write (for a stream) of the audio into the output directory
  succeeds and the engine then raises, the recognition call returns the empty text
  together with the path of the persisted file, \<open>output_dir/session_id + extension\<close>,
  and that file holds the audio after the call: an empty text does not come with a
  null path.
\<close>

theorem failed_inference_keeps_artifact:
  assumes k: "\<not> delete_audio_file self"
    and ex: "files w p = Some a"
    and fmt: "lower (snd (splitext p)) \<in> set supported_formats"
    and sfmt: "lower ext \<in> set supported_formats"
    and ok: "\<And>j. getsize_fault (env j) = None \<and> copy_fault (env j) = None
                 \<and> write_fault (env j) = None \<and> read_fault (env j) = None
                 \<and> (\<exists>n. disk_free (env j) = Inr n \<and> length a * 2 \<le> n)"
    and bad: "\<And>j. \<exists>e. generate (env j) a = Inl e"
  shows "(\<exists>w'. speech_to_text_from_audio_file self env p sid w
                 = (Some ('''', Some (os_path_join (output_dir self)
                                        (sid @ lower (snd (splitext p))))), w')
              \<and> files w' (os_path_join (output_dir self) (sid @ lower (snd (splitext p))))
                  = Some a)
       \<and> (\<exists>v'. speech_to_text_from_audio_stream self env a sid ext v
                 = (Inr (Some ('''', Some (os_path_join (output_dir self) (sid @ ext)))), v')
              \<and> files v' (os_path_join (output_dir self) (sid @ ext)) = Some a)"
proof
  have step: "\<exists>e v'. file_try self (env j) p sid fp0 u
                 = (Inl e, Some (os_path_join (output_dir self) (sid @ lower (snd (splitext p)))), v')
             \<and> files v' = (files u)(os_path_join (output_dir self)
                                       (sid @ lower (snd (splitext p))) \<mapsto> a)"
    if "files u p = Some a" for j fp0 u
  proof -
    from ok [of j] obtain n where n: "disk_free (env j) = Inr n" "length a * 2 \<le> n"
      by blast
    from bad [of j] obtain e where e: "generate (env j) a = Inl e"
      by blast
    from file_try_persisted [OF k that fmt _ n _ _ e, of sid fp0] ok [of j]
    show ?thesis by auto
  qed
  from file_loop_persisted [where env = env, OF k ex step]
  show "\<exists>w'. speech_to_text_from_audio_file self env p sid w
                 = (Some ('''', Some (os_path_join (output_dir self)
                                        (sid @ lower (snd (splitext p))))), w')
              \<and> files w' (os_path_join (output_dir self) (sid @ lower (snd (splitext p))))
                  = Some a"
    by (simp add: speech_to_text_from_audio_file_def del: file_loop.simps)
next
  have step: "\<exists>e v'. stream_try self (env j) a sid ext fp0 u
                 = (Inl e, Some (os_path_join (output_dir self) (sid @ ext)), v')
             \<and> files v' = (files u)(os_path_join (output_dir self) (sid @ ext) \<mapsto> a)"
    for j fp0 u
  proof -
    from ok [of j] obtain n where n: "disk_free (env j) = Inr n" "length a * 2 \<le> n"
      by blast
    from bad [of j] obtain e where e: "generate (env j) a = Inl e"
      by blast
    from stream_try_persisted [OF k n _ e, of sid ext fp0 u] ok [of j]
    show ?thesis by auto
  qed
  from stream_loop_persisted [where env = env and w = v, OF k step] obtain v'
    where "stream_loop self env a sid ext None 0 v
             = (Some ([], Some (os_path_join (output_dir self) (sid @ ext))), v')"
      and "files v' (os_path_join (output_dir self) (sid @ ext)) = Some a"
    by blast
  with sfmt
  show "\<exists>v'. speech_to_text_from_audio_stream self env a sid ext v
                 = (Inr (Some ('''', Some (os_path_join (output_dir self) (sid @ ext)))), v')
              \<and> files v' (os_path_join (output_dir self) (sid @ ext)) = Some a"
    by (simp add: speech_to_text_from_audio_stream_def del: stream_loop.simps)
qed

theorem failed_inference_keeps_artifact_witness:
  "\<not> delete_audio_file \<lparr>delete_audio_file = False, output_dir = ''out''\<rparr>
   \<and> (\<exists>w'. speech_to_text_from_audio_file \<lparr>delete_audio_file = False, output_dir = ''out''\<rparr>
        (\<lambda>k. \<lparr>getsize_fault = None, disk_free = Inr 1000, copy_fault = None, write_fault = None,
               read_fault = None, generate = (\<lambda>b. Inl (Exception ''engine'')), remove_fault = None\<rparr>)
        ''in/a.WAV'' ''s1''
        \<lparr>files = [''in/a.WAV'' \<mapsto> [1, 2, 3]], calls = 0, attempts = 0, sleeps = [], delivered = []\<rparr>
       = (Some ('''', Some ''out/s1.wav''), w')
      \<and> files w' ''out/s1.wav'' = Some [1, 2, 3])
   \<and> (\<exists>v'. speech_to_text_from_audio_stream \<lparr>delete_audio_file = False, output_dir = ''out''\<rparr>
        (\<lambda>k. \<lparr>getsize_fault = None, disk_free = Inr 1000, copy_fault = None, write_fault = None,
               read_fault = None, generate = (\<lambda>b. Inl (Exception ''engine'')), remove_fault = None\<rparr>)
        [1, 2, 3] ''s1'' ''.MP3''
        \<lparr>files = Map.empty, calls = 0, attempts = 0, sleeps = [], delivered = []\<rparr>
       = (Inr (Some ('''', Some ''out/s1.MP3'')), v')
      \<and> files v' ''out/s1.MP3'' = Some [1, 2, 3])"
proof -
  have fmt: "lower (snd (splitext ''in/a.WAV'')) \<in> set supported_formats"
    by (simp add: ext_wav supported_formats_def)
  have sfmt: "lower ''.MP3'' \<in> set supported_formats"
    by (simp add: lower_def lower_char_def supported_formats_def)
  from failed_inference_keeps_artifact
    [where self = "\<lparr>delete_audio_file = False, output_dir = ''out''\<rparr>"
       and env = "\<lambda>k. \<lparr>getsize_fault = None, disk_free = Inr 1000, copy_fault = None,
                        write_fault = None, read_fault = None,
                        generate = (\<lambda>b. Inl (Exception ''engine'')), remove_fault = None\<rparr>"
       and p = "''in/a.WAV''" and a = "[1, 2, 3]" and sid = "''s1''" and ext = "''.MP3''"
       and w = "\<lparr>files = [''in/a.WAV'' \<mapsto> [1, 2, 3]], calls = 0, attempts = 0, sleeps = [],
                  delivered = []\<rparr>"
       and v = "\<lparr>files = Map.empty, calls = 0, attempts = 0, sleeps = [], delivered = []\<rparr>",
     OF _ _ fmt sfmt]
  show ?thesis
    by (simp add: ext_wav os_path_join_def)
qed

section \<open>The coordinator\<close>

text \<open>
  C4. When all three modules are there and the recognition stage returns the empty
  text, \<open>process_voice_query\<close> raises the exception "speech recognition failed", and the
  request has made no call to the language model and no call to the synthesizer: apart
  from what the recognizer did, the world is as before.
\<close>

theorem empty_recognition_stops_request:
  assumes m: "asr_module mods = Some (recognizer, env)" "llm_module mods = Some model"
      "tts_module mods = Some t"
    and sid: "sid = (case session of None \<Rightarrow> new_session
                     | Some x \<Rightarrow> if x = [] then new_session else x)"
    and empty: "speech_to_text_from_audio_file recognizer env p sid (machine s)
                  = (Some ('''', fp), w1)"
  shows "process_voice_query mods config new_session conn_uuid sentence_uuid audio_file p session s
           = (Inl (Exception ''speech recognition failed''), s\<lparr>machine := w1\<rparr>)
       \<and> llm_calls (snd (process_voice_query mods config new_session conn_uuid sentence_uuid
                           audio_file p session s)) = llm_calls s
       \<and> tts_calls (snd (process_voice_query mods config new_session conn_uuid sentence_uuid
                           audio_file p session s)) = tts_calls s"
proof -
  have "process_voice_query mods config new_session conn_uuid sentence_uuid audio_file p session s
           = (Inl (Exception ''speech recognition failed''), s\<lparr>machine := w1\<rparr>)"
    using m empty [unfolded sid]
    by (simp add: process_voice_query_def del: file_loop.simps)
  then show ?thesis by simp
qed

theorem empty_recognition_stops_request_witness:
  "process_voice_query
      \<lparr>asr_module = Some (\<lparr>delete_audio_file = False, output_dir = ''out''\<rparr>,
          \<lambda>k. \<lparr>getsize_fault = None, disk_free = Inr 1000, copy_fault = None, write_fault = None,
                 read_fault = None, generate = (\<lambda>b. Inr ''hi''), remove_fault = None\<rparr>),
        llm_module = Some (\<lambda>i d. Inr [Yield False (Some ''hello'')]),
        tts_module = Some \<lparr>text_to_speak = (\<lambda>n x y f. (Inr None, f)), clean_markdown = (\<lambda>x. x),
          audio_bytes_to_data_stream = (\<lambda>b. ([], None)), decode_file = (\<lambda>x f. ([], None)),
          os_remove_fault = (\<lambda>n. None)\<rparr>\<rparr>
      None ''u0'' ''u1'' ''u2'' ''tmp/tts.wav'' ''in/a.TXT'' (Some ''s1'')
      \<lparr>machine = \<lparr>files = [''in/a.TXT'' \<mapsto> [1, 2, 3]], calls = 0, attempts = 0, sleeps = [],
                    delivered = []\<rparr>,
        llm_calls = 0, tts_calls = 0, scheduled = []\<rparr>
    = (Inl (Exception ''speech recognition failed''),
       \<lparr>machine = \<lparr>files = [''in/a.TXT'' \<mapsto> [1, 2, 3]], calls = 0, attempts = 1, sleeps = [],
                     delivered = []\<rparr>,
         llm_calls = 0, tts_calls = 0, scheduled = []\<rparr>)"
proof -
  have u: "lower (snd (splitext ''in/a.TXT'')) \<notin> set supported_formats"
    by (simp add: ext_txt supported_formats_def)
  have e: "speech_to_text_from_audio_file \<lparr>delete_audio_file = False, output_dir = ''out''\<rparr>
        (\<lambda>k. \<lparr>getsize_fault = None, disk_free = Inr 1000, copy_fault = None, write_fault = None,
               read_fault = None, generate = (\<lambda>b. Inr ''hi''), remove_fault = None\<rparr>)
        ''in/a.TXT'' ''s1''
        (machine \<lparr>machine = \<lparr>files = [''in/a.TXT'' \<mapsto> [1, 2, 3]], calls = 0, attempts = 0,
                     sleeps = [], delivered = []\<rparr>,
                  llm_calls = 0, tts_calls = 0, scheduled = []\<rparr>)
      = (Some ('''', None),
         \<lparr>files = [''in/a.TXT'' \<mapsto> [1, 2, 3]], calls = 0, attempts = 1, sleeps = [],
           delivered = []\<rparr>)"
    by (simp add: unsupported_file [OF u])
  have s: "''s1'' = (case Some ''s1'' of None \<Rightarrow> ''u0''
                     | Some x \<Rightarrow> if x = [] then ''u0'' else x)"
    by simp
  from empty_recognition_stops_request [OF _ _ _ s e,
      where mods = "\<lparr>asr_module = Some (\<lparr>delete_audio_file = False, output_dir = ''out''\<rparr>,
          \<lambda>k. \<lparr>getsize_fault = None, disk_free = Inr 1000, copy_fault = None, write_fault = None,
                 read_fault = None, generate = (\<lambda>b. Inr ''hi''), remove_fault = None\<rparr>),
        llm_module = Some (\<lambda>i d. Inr [Yield False (Some ''hello'')]),
        tts_module = Some \<lparr>text_to_speak = (\<lambda>n x y f. (Inr None, f)), clean_markdown = (\<lambda>x. x),
          audio_bytes_to_data_stream = (\<lambda>b. ([], None)), decode_file = (\<lambda>x f. ([], None)),
          os_remove_fault = (\<lambda>n. None)\<rparr>\<rparr>"
      and config = None and conn_uuid = "''u1''" and sentence_uuid = "''u2''"
      and audio_file = "''tmp/tts.wav''"]
  show ?thesis
    by simp
qed

end
